theory Spec2Isabelle
  imports Complex_Main
begin

section \<open>JavaScript values used by the two components\<close>

text \<open>
  The components are TypeScript classes; the parts of the language they rely on are
  modelled here: strings, numbers, \<^verbatim>\<open>undefined\<close>, the unary plus and the operator
  \<^verbatim>\<open>||\<close>. A value that may be \<^verbatim>\<open>undefined\<close> (or \<^verbatim>\<open>null\<close>) is an \<open>option\<close>, \<open>None\<close>
  standing for both.

  A string is the list of the bytes of its UTF-8 encoding, so every string of Unicode
  characters is a value of the type. The components test strings for emptiness and for
  equality and convert them to numbers, and nothing else.

  A number is a double: not-a-number, an infinity, or \<open>Finite q\<close> with \<open>q\<close> the rational
  that the double equals. The two zeros are one value, \<open>Finite 0\<close>: a zero is falsy,
  and under \<^verbatim>\<open>+x || x\<close> a falsy number is never the result.
\<close>

datatype number = NaN | PosInfinity | NegInfinity | Finite rat

datatype jsval = Str string | Num number

fun negate :: "number \<Rightarrow> number" where
  "negate NaN = NaN"
| "negate PosInfinity = NegInfinity"
| "negate NegInfinity = PosInfinity"
| "negate (Finite q) = Finite (- q)"

subsection \<open>The Number value of a rational\<close>

definition pow2 :: "int \<Rightarrow> rat" where
  "pow2 e = (if 0 \<le> e then 2 ^ nat e else 1 / 2 ^ nat (- e))"

function bitLength :: "int \<Rightarrow> int" where
  \<comment> \<open>The number of binary digits of a positive integer.\<close>
  "bitLength n = (if n \<le> 0 then 0 else 1 + bitLength (n div 2))"
  by pat_completeness auto
termination
  by (relation "measure nat") auto

definition floorLog2 :: "rat \<Rightarrow> int" where
  \<comment> \<open>For \<open>0 < a\<close>: the \<open>e\<close> with \<open>2\<^sup>e \<le> a < 2\<^sup>e\<^sup>+\<^sup>1\<close>.\<close>
  "floorLog2 a =
     (let (n, d) = quotient_of a;
          k = bitLength n - bitLength d
      in if pow2 k \<le> a then k else k - 1)"

definition roundHalfEven :: "rat \<Rightarrow> int" where
  "roundHalfEven x =
     (let f = \<lfloor>x\<rfloor>; r = x - of_int f
      in if r < 1 / 2 then f
         else if 1 / 2 < r then f + 1
         else if even f then f else f + 1)"

definition roundToDouble :: "rat \<Rightarrow> number" where
  \<comment> \<open>The Number value of \<open>q\<close>, as the engines compute it for a literal: the double
      nearest to \<open>q\<close>, a tie going to the even significand. 53 bits of significand, the
      exponent of the unit in the last place not below \<open>-1074\<close>, and an infinity when the
      rounded value reaches \<open>2\<^sup>1\<^sup>0\<^sup>2\<^sup>4\<close>.\<close>
  "roundToDouble q =
     (if q = 0 then Finite 0
      else
        let a = \<bar>q\<bar>;
            e = max (floorLog2 a) (- 1022);
            ulp = pow2 (e - 52);
            r = of_int (roundHalfEven (a / ulp)) * ulp
        in if pow2 1024 \<le> r then (if 0 < q then PosInfinity else NegInfinity)
           else Finite (if 0 < q then r else - r))"

subsection \<open>Conversion of a string to a number\<close>

definition StrWhiteSpaceChar :: "string list" where
  \<comment> \<open>The white space and line terminator characters, each in UTF-8: U+0009 to U+000D,
      U+0020, U+00A0, U+1680, U+2000 to U+200A, U+2028, U+2029, U+202F, U+205F, U+3000,
      U+FEFF.\<close>
  "StrWhiteSpaceChar =
     [[CHR 0x09], [CHR 0x0A], [CHR 0x0B], [CHR 0x0C], [CHR 0x0D], [CHR 0x20],
      [CHR 0xC2, CHR 0xA0], [CHR 0xE1, CHR 0x9A, CHR 0x80],
      [CHR 0xE2, CHR 0x80, CHR 0x80], [CHR 0xE2, CHR 0x80, CHR 0x81],
      [CHR 0xE2, CHR 0x80, CHR 0x82], [CHR 0xE2, CHR 0x80, CHR 0x83],
      [CHR 0xE2, CHR 0x80, CHR 0x84], [CHR 0xE2, CHR 0x80, CHR 0x85],
      [CHR 0xE2, CHR 0x80, CHR 0x86], [CHR 0xE2, CHR 0x80, CHR 0x87],
      [CHR 0xE2, CHR 0x80, CHR 0x88], [CHR 0xE2, CHR 0x80, CHR 0x89],
      [CHR 0xE2, CHR 0x80, CHR 0x8A], [CHR 0xE2, CHR 0x80, CHR 0xA8],
      [CHR 0xE2, CHR 0x80, CHR 0xA9], [CHR 0xE2, CHR 0x80, CHR 0xAF],
      [CHR 0xE2, CHR 0x81, CHR 0x9F], [CHR 0xE3, CHR 0x80, CHR 0x80],
      [CHR 0xEF, CHR 0xBB, CHR 0xBF]]"

function dropLeading :: "string list \<Rightarrow> string \<Rightarrow> string" where
  \<comment> \<open>Removes from the front of \<open>s\<close> every leading occurrence of a member of \<open>ws\<close>.\<close>
  "dropLeading ws s =
     (case List.find (\<lambda>w. w \<noteq> [] \<and> take (length w) s = w) ws of
        None \<Rightarrow> s
      | Some w \<Rightarrow> dropLeading ws (drop (length w) s))"
  by pat_completeness auto
termination
proof (relation "measure (\<lambda>(ws, s). length s)")
  show "wf (measure (\<lambda>(ws, s). length s))"
    by simp
next
  fix ws :: "string list" and s w :: string
  assume "List.find (\<lambda>w. w \<noteq> [] \<and> take (length w) s = w) ws = Some w"
  then have w: "w \<noteq> []" and t: "take (length w) s = w"
    by (auto simp add: find_Some_iff)
  from t have "length (take (length w) s) = length w"
    by simp
  then have "length w \<le> length s"
    by simp
  moreover from w have "0 < length w"
    by simp
  ultimately have "length s - length w < length s"
    by arith
  then show "((ws, drop (length w) s), (ws, s)) \<in> measure (\<lambda>(ws, s). length s)"
    by simp
qed

definition trim :: "string \<Rightarrow> string" where
  "trim s =
     rev (dropLeading (map rev StrWhiteSpaceChar) (rev (dropLeading StrWhiteSpaceChar s)))"

definition digitOf :: "int \<Rightarrow> char \<Rightarrow> int option" where
  \<comment> \<open>The value of a digit in base \<open>b\<close> (2, 8, 10 or 16), if it is one.\<close>
  "digitOf b c =
     (let n = (of_char c :: int);
          d = (if 48 \<le> n \<and> n \<le> 57 then Some (n - 48)
               else if 97 \<le> n \<and> n \<le> 102 then Some (n - 87)
               else if 65 \<le> n \<and> n \<le> 70 then Some (n - 55)
               else None)
      in case d of None \<Rightarrow> None | Some v \<Rightarrow> if v < b then Some v else None)"

definition isDecimalDigit :: "char \<Rightarrow> bool" where
  "isDecimalDigit c = (digitOf 10 c \<noteq> None)"

fun digitsMV :: "int \<Rightarrow> int \<Rightarrow> string \<Rightarrow> int option" where
  "digitsMV b acc [] = Some acc"
| "digitsMV b acc (c # cs) =
     (case digitOf b c of None \<Rightarrow> None | Some d \<Rightarrow> digitsMV b (acc * b + d) cs)"

definition integerMV :: "int \<Rightarrow> string \<Rightarrow> int option" where
  \<comment> \<open>One or more digits of base \<open>b\<close>, and nothing else.\<close>
  "integerMV b s = (if s = [] then None else digitsMV b 0 s)"

definition exponentPart :: "string \<Rightarrow> int option" where
  \<comment> \<open>ExponentPart, optional: \<^verbatim>\<open>e\<close> or \<^verbatim>\<open>E\<close>, an optional sign, one or more digits.\<close>
  "exponentPart s =
     (case s of
        [] \<Rightarrow> Some 0
      | c # r \<Rightarrow>
          if c = CHR ''e'' \<or> c = CHR ''E'' then
            (case r of
               [] \<Rightarrow> None
             | d # r' \<Rightarrow>
                 if d = CHR ''-'' then map_option uminus (integerMV 10 r')
                 else if d = CHR ''+'' then integerMV 10 r'
                 else integerMV 10 r)
          else None)"

definition scale10 :: "int \<Rightarrow> int \<Rightarrow> rat" where
  \<comment> \<open>The mathematical value \<open>m \<times> 10\<^sup>e\<close> of a decimal literal.\<close>
  "scale10 m e = (if 0 \<le> e then of_int m * 10 ^ nat e else of_int m / 10 ^ nat (- e))"

definition unsignedDecimal :: "string \<Rightarrow> number" where
  \<comment> \<open>StrUnsignedDecimalLiteral: \<^verbatim>\<open>Infinity\<close>, or digits with an optional fraction and
      exponent, at least one digit before or after the point; the result is the Number
      value of the mathematical value.\<close>
  "unsignedDecimal s =
     (if s = ''Infinity'' then PosInfinity
      else
        let ip = takeWhile isDecimalDigit s;
            r1 = dropWhile isDecimalDigit s;
            fp = (case r1 of [] \<Rightarrow> [] | c # t \<Rightarrow>
                    if c = CHR ''.'' then takeWhile isDecimalDigit t else []);
            r2 = (case r1 of [] \<Rightarrow> [] | c # t \<Rightarrow>
                    if c = CHR ''.'' then dropWhile isDecimalDigit t else r1)
        in if ip = [] \<and> fp = [] then NaN
           else
             (case (digitsMV 10 0 (ip @ fp), exponentPart r2) of
                (Some m, Some e) \<Rightarrow> roundToDouble (scale10 m (e - int (length fp)))
              | _ \<Rightarrow> NaN))"

definition nonDecimal :: "string \<Rightarrow> number option" where
  \<comment> \<open>NonDecimalIntegerLiteral: \<^verbatim>\<open>0b\<close>, \<^verbatim>\<open>0o\<close>, \<^verbatim>\<open>0x\<close> (either case) and digits; \<open>None\<close>
      when the string has no such prefix.\<close>
  "nonDecimal s =
     (case s of
        c0 # c1 # r \<Rightarrow>
          if c0 = CHR ''0'' \<and> (c1 = CHR ''b'' \<or> c1 = CHR ''B'' \<or> c1 = CHR ''o'' \<or> c1 = CHR ''O''
                                \<or> c1 = CHR ''x'' \<or> c1 = CHR ''X'') then
            Some (case integerMV (if c1 = CHR ''b'' \<or> c1 = CHR ''B'' then 2
                                  else if c1 = CHR ''o'' \<or> c1 = CHR ''O'' then 8 else 16) r of
                    None \<Rightarrow> NaN
                  | Some m \<Rightarrow> roundToDouble (of_int m))
          else None
      | _ \<Rightarrow> None)"

definition StringToNumber :: "string \<Rightarrow> number" where
  \<comment> \<open>The abstract operation of the language: white space is trimmed at both ends; blank
      gives 0, a numeric literal the Number value of its value, anything else NaN.\<close>
  "StringToNumber str =
     (let s = trim str in
      if s = [] then Finite 0
      else case nonDecimal s of
        Some n \<Rightarrow> n
      | None \<Rightarrow>
          (case s of
             [] \<Rightarrow> Finite 0
           | c # r \<Rightarrow>
               if c = CHR ''-'' then negate (unsignedDecimal r)
               else if c = CHR ''+'' then unsignedDecimal r
               else unsignedDecimal s))"

fun ToNumber :: "jsval option \<Rightarrow> number" where
  \<comment> \<open>The unary plus. \<open>None\<close> is \<^verbatim>\<open>undefined\<close> here: a parameter mapping has no
      \<^verbatim>\<open>null\<close> entries.\<close>
  "ToNumber None = NaN"
| "ToNumber (Some (Str s)) = StringToNumber s"
| "ToNumber (Some (Num n)) = n"

fun isZero :: "number \<Rightarrow> bool" where
  "isZero (Finite q) = (q = 0)"
| "isZero _ = False"

fun ToBoolean :: "jsval option \<Rightarrow> bool" where
  "ToBoolean None = False"
| "ToBoolean (Some (Str s)) = (s \<noteq> [])"
| "ToBoolean (Some (Num n)) = (n \<noteq> NaN \<and> \<not> isZero n)"

definition or_js :: "jsval option \<Rightarrow> jsval option \<Rightarrow> jsval option" where
  \<comment> \<open>\<^verbatim>\<open>a || b\<close>\<close>
  "or_js a b = (if ToBoolean a then a else b)"

section \<open>Helpers of \<^verbatim>\<open>shared/empty.util\<close>\<close>

text \<open>
  Modelled from the spec: \<^verbatim>\<open>hasValue\<close> of \<^verbatim>\<open>shared/empty.util\<close>, which is not among
  the sources. The spec reads it as "is present": the value is neither \<^verbatim>\<open>undefined\<close>
  nor \<^verbatim>\<open>null\<close>.
\<close>

definition hasValue :: "'a option \<Rightarrow> bool" where
  "hasValue obj = (obj \<noteq> None)"

text \<open>
  Modelled from the spec: \<^verbatim>\<open>isEmpty\<close> and \<^verbatim>\<open>isNotEmpty\<close> of \<^verbatim>\<open>shared/empty.util\<close>,
  which is not among the sources, on a parameter value. The spec: the empty string means
  "no filter", and so does an absent value; a number is a filter value.
\<close>

fun isEmpty :: "jsval option \<Rightarrow> bool" where
  "isEmpty None = True"
| "isEmpty (Some (Str s)) = (s = [])"
| "isEmpty (Some (Num n)) = False"

definition isNotEmpty :: "jsval option \<Rightarrow> bool" where
  "isNotEmpty obj = (\<not> isEmpty obj)"

section \<open>The browse-by-metadata page\<close>

subsection \<open>Data\<close>

record PaginationComponentOptions =
  id_fld :: string
  currentPage :: nat
  pageSize :: nat

datatype SortDirection = ASC | DESC

datatype SortOptions = SortOptions (field: string) (direction: SortDirection)

text \<open>
  \<^verbatim>\<open>new BrowseEntrySearchOptions(metadata, pagination, sort, startsWith, scope)\<close>: the query
  descriptor handed to the browse service. The last two arguments may be left out.
\<close>

datatype BrowseEntrySearchOptions =
  BrowseEntrySearchOptions
    (metadataDefinition: "jsval option")
    (pagination: PaginationComponentOptions)
    (sort: SortOptions)
    (startsWith_opt: "jsval option")
    (scope_opt: "jsval option")

text \<open>
  The injected services are collaborators outside the sources. A call on one of them is
  recorded, and the observable it returns is named by the call. \<open>'p\<close> is the type of a
  fetched page (\<^verbatim>\<open>RemoteData<PaginatedList<...>>\<close>).
\<close>

datatype 'p call =
    GetBrowseEntriesFor BrowseEntrySearchOptions
  | GetBrowseItemsFor "jsval option" "jsval option" BrowseEntrySearchOptions
  | GetPrevBrowseItems 'p
  | GetNextBrowseItems 'p
  | GetPrevBrowseEntries 'p
  | GetNextBrowseEntries 'p
  | FindById "jsval option"
  | GetCurrentPagination string PaginationComponentOptions
  | GetCurrentSort string SortOptions
  | ClearPagination string
  | Unsubscribe nat

datatype 'p observable =
    Returned "'p call"
  | FirstSucceeded "'p observable"  \<comment> \<open>\<^verbatim>\<open>.pipe(getFirstSucceededRemoteData())\<close>\<close>

text \<open>The four functions that \<^verbatim>\<open>goPrev\<close> and \<^verbatim>\<open>goNext\<close> pass to \<^verbatim>\<open>subscribe\<close>.\<close>

datatype handler = PrevItems | PrevEntries | NextItems | NextEntries

datatype StartsWithType = text_type | date_type

text \<open>
  The component. A \<^verbatim>\<open>Subscription\<close> is a handle (a number); \<open>None\<close> in \<open>subs\<close> is a
  \<^verbatim>\<open>null\<close> or \<^verbatim>\<open>undefined\<close> entry. The last three fields are not fields of the class:
  \<open>calls\<close> is the log of the calls made on the services and on subscriptions, oldest
  first; \<open>pending\<close> holds the subscriptions made by \<^verbatim>\<open>goPrev\<close> and \<^verbatim>\<open>goNext\<close> that
  still wait for a value; \<open>closed\<close> is the set of subscriptions that are unsubscribed.
\<close>

record 'p BrowseByMetadataPageComponent =
  browseEntries_s :: "'p observable option"  \<comment> \<open>\<^verbatim>\<open>browseEntries$\<close>\<close>
  items_s :: "'p observable option"  \<comment> \<open>\<^verbatim>\<open>items$\<close>\<close>
  parent_s :: "'p observable option"  \<comment> \<open>\<^verbatim>\<open>parent$\<close>\<close>
  currentPagination_s :: "'p observable option"
  currentSort_s :: "'p observable option"
  subs :: "nat option list"
  browseId :: "jsval option"
  startsWithType :: StartsWithType
  startsWithOptions :: "string list option"
  value_fld :: "jsval option"  \<comment> \<open>\<^verbatim>\<open>value\<close>\<close>
  authority :: "jsval option"
  startsWith :: "jsval option"
  calls :: "'p call list"
  pending :: "('p observable \<times> handler) list"
  closed :: "nat set"

definition BBM_PAGINATION_ID :: string where
  "BBM_PAGINATION_ID = ''bbm''"

text \<open>
  \<^verbatim>\<open>paginationConfig\<close> and \<^verbatim>\<open>defaultBrowseId\<close> are fields set by their initialisers and
  assigned nowhere in the class, so they are constants here.
\<close>

definition paginationConfig :: PaginationComponentOptions where
  "paginationConfig = \<lparr>id_fld = BBM_PAGINATION_ID, currentPage = 1, pageSize = 20\<rparr>"

definition defaultBrowseId :: string where
  "defaultBrowseId = ''author''"

definition new_component :: "'p BrowseByMetadataPageComponent" where
  \<comment> \<open>The field initialisers.\<close>
  "new_component =
     \<lparr>browseEntries_s = None, items_s = None, parent_s = None,
      currentPagination_s = None, currentSort_s = None, subs = [],
      browseId = Some (Str defaultBrowseId), startsWithType = text_type,
      startsWithOptions = None, value_fld = Some (Str []), authority = None,
      startsWith = None, calls = [], pending = [], closed = {}\<rparr>"

subsection \<open>Operations\<close>

definition param :: "(string \<rightharpoonup> string) \<Rightarrow> string \<Rightarrow> jsval option" where
  \<comment> \<open>\<^verbatim>\<open>params.key\<close>: the router delivers strings; a missing key reads \<^verbatim>\<open>undefined\<close>.\<close>
  "param params key = map_option Str (params key)"

definition plus_or :: "jsval option \<Rightarrow> jsval option" where
  \<comment> \<open>\<^verbatim>\<open>+x || x\<close>\<close>
  "plus_or x = or_js (Some (Num (ToNumber x))) x"

definition browseParamsToOptions ::
  "(string \<rightharpoonup> string) \<Rightarrow> PaginationComponentOptions \<Rightarrow> SortOptions \<Rightarrow> jsval option
     \<Rightarrow> BrowseEntrySearchOptions" where
  "browseParamsToOptions params paginationConfig' sortConfig metadata =
     BrowseEntrySearchOptions metadata paginationConfig' sortConfig
       (plus_or (param params ''startsWith''))
       (param params ''scope'')"

definition updateStartsWithTextOptions ::
  "'p BrowseByMetadataPageComponent \<Rightarrow> 'p BrowseByMetadataPageComponent" where
  "updateStartsWithTextOptions c =
     c\<lparr>startsWithOptions := Some (''0-9'' # map (\<lambda>ch. [ch]) ''ABCDEFGHIJKLMNOPQRSTUVWXYZ'')\<rparr>"

definition updatePage ::
  "BrowseEntrySearchOptions \<Rightarrow> 'p BrowseByMetadataPageComponent
     \<Rightarrow> 'p BrowseByMetadataPageComponent" where
  "updatePage searchOptions c =
     c\<lparr>browseEntries_s := Some (Returned (GetBrowseEntriesFor searchOptions)),
       items_s := None,
       calls := calls c @ [GetBrowseEntriesFor searchOptions]\<rparr>"

definition updatePageWithItems ::
  "BrowseEntrySearchOptions \<Rightarrow> jsval option \<Rightarrow> jsval option
     \<Rightarrow> 'p BrowseByMetadataPageComponent \<Rightarrow> 'p BrowseByMetadataPageComponent" where
  "updatePageWithItems searchOptions v auth c =
     c\<lparr>items_s := Some (Returned (GetBrowseItemsFor v auth searchOptions)),
       calls := calls c @ [GetBrowseItemsFor v auth searchOptions]\<rparr>"

definition updateParent ::
  "jsval option \<Rightarrow> 'p BrowseByMetadataPageComponent \<Rightarrow> 'p BrowseByMetadataPageComponent" where
  "updateParent scope c =
     (if hasValue scope then
        c\<lparr>parent_s := Some (FirstSucceeded (Returned (FindById scope))),
          calls := calls c @ [FindById scope]\<rparr>
      else c)"

definition subscribe ::
  "'p observable \<Rightarrow> handler \<Rightarrow> 'p BrowseByMetadataPageComponent
     \<Rightarrow> 'p BrowseByMetadataPageComponent" where
  "subscribe obs h c = c\<lparr>pending := pending c @ [(obs, h)]\<rparr>"

definition goPrev :: "'p BrowseByMetadataPageComponent \<Rightarrow> 'p BrowseByMetadataPageComponent" where
  "goPrev c =
     (case items_s c of
        Some items \<Rightarrow> subscribe (FirstSucceeded items) PrevItems c
      | None \<Rightarrow>
          (case browseEntries_s c of
             Some entries \<Rightarrow> subscribe (FirstSucceeded entries) PrevEntries c
           | None \<Rightarrow> c))"

definition goNext :: "'p BrowseByMetadataPageComponent \<Rightarrow> 'p BrowseByMetadataPageComponent" where
  "goNext c =
     (case items_s c of
        Some items \<Rightarrow> subscribe (FirstSucceeded items) NextItems c
      | None \<Rightarrow>
          (case browseEntries_s c of
             Some entries \<Rightarrow> subscribe (FirstSucceeded entries) NextEntries c
           | None \<Rightarrow> c))"

fun handler_next ::
  "handler \<Rightarrow> 'p \<Rightarrow> 'p BrowseByMetadataPageComponent \<Rightarrow> 'p BrowseByMetadataPageComponent" where
  \<comment> \<open>The body of each function passed to \<^verbatim>\<open>subscribe\<close>, run on the value received.\<close>
  "handler_next PrevItems items c =
     c\<lparr>items_s := Some (Returned (GetPrevBrowseItems items)),
       calls := calls c @ [GetPrevBrowseItems items]\<rparr>"
| "handler_next PrevEntries entries c =
     c\<lparr>browseEntries_s := Some (Returned (GetPrevBrowseEntries entries)),
       calls := calls c @ [GetPrevBrowseEntries entries]\<rparr>"
| "handler_next NextItems items c =
     c\<lparr>items_s := Some (Returned (GetNextBrowseItems items)),
       calls := calls c @ [GetNextBrowseItems items]\<rparr>"
| "handler_next NextEntries entries c =
     c\<lparr>browseEntries_s := Some (Returned (GetNextBrowseEntries entries)),
       calls := calls c @ [GetNextBrowseEntries entries]\<rparr>"

definition emit ::
  "nat \<Rightarrow> 'p \<Rightarrow> 'p BrowseByMetadataPageComponent \<Rightarrow> 'p BrowseByMetadataPageComponent" where
  \<comment> \<open>The \<open>k\<close>-th waiting subscription receives the first succeeded page \<open>p\<close> of its
      observable: its function runs once, and the subscription is over.\<close>
  "emit k p c =
     (if k < length (pending c) then
        handler_next (snd (pending c ! k)) p
          (c\<lparr>pending := take k (pending c) @ drop (Suc k) (pending c)\<rparr>)
      else c)"

definition ngOnInit_next ::
  "(string \<rightharpoonup> string) \<Rightarrow> (string \<rightharpoonup> string) \<Rightarrow> PaginationComponentOptions \<Rightarrow> SortOptions
     \<Rightarrow> 'p BrowseByMetadataPageComponent \<Rightarrow> 'p BrowseByMetadataPageComponent" where
  \<comment> \<open>One emission of the combined stream: the \<^verbatim>\<open>map\<close> step merges the two parameter
      objects (\<^verbatim>\<open>Object.assign({}, routeParams, queryParams)\<close>), then the subscriber runs.\<close>
  "ngOnInit_next routeParams queryParams currentPage' currentSort c =
     (let params = routeParams ++ queryParams;
          c1 = c\<lparr>browseId := or_js (param params ''id'') (Some (Str defaultBrowseId))\<rparr>;
          c2 = c1\<lparr>authority := param params ''authority''\<rparr>;
          c3 = c2\<lparr>value_fld := or_js (plus_or (param params ''value'')) (Some (Str []))\<rparr>;
          c4 = c3\<lparr>startsWith := plus_or (param params ''startsWith'')\<rparr>;
          searchOptions = browseParamsToOptions params currentPage' currentSort (browseId c4);
          c5 = (if isNotEmpty (value_fld c4)
                then updatePageWithItems searchOptions (value_fld c4) (authority c4) c4
                else updatePage searchOptions c4)
      in updateParent (param params ''scope'') c5)"

definition ngOnInit ::
  "nat \<Rightarrow> 'p BrowseByMetadataPageComponent \<Rightarrow> 'p BrowseByMetadataPageComponent" where
  \<comment> \<open>\<open>sub\<close> is the subscription that \<^verbatim>\<open>subscribe\<close> returns for the combined stream; its
      emissions are handled by \<open>ngOnInit_next\<close>.\<close>
  "ngOnInit sub c =
     (let sortConfig = SortOptions ''default'' ASC;
          c1 = updatePage
                 (BrowseEntrySearchOptions (Some (Str defaultBrowseId)) paginationConfig
                    sortConfig None None) c;
          c2 = c1\<lparr>currentPagination_s :=
                    Some (Returned (GetCurrentPagination (id_fld paginationConfig) paginationConfig)),
                  calls := calls c1 @ [GetCurrentPagination (id_fld paginationConfig) paginationConfig]\<rparr>;
          c3 = c2\<lparr>currentSort_s :=
                    Some (Returned (GetCurrentSort (id_fld paginationConfig) sortConfig)),
                  calls := calls c2 @ [GetCurrentSort (id_fld paginationConfig) sortConfig]\<rparr>;
          c4 = c3\<lparr>subs := subs c3 @ [Some sub]\<rparr>
      in updateStartsWithTextOptions c4)"

definition unsubscribe ::
  "nat \<Rightarrow> 'p BrowseByMetadataPageComponent \<Rightarrow> 'p BrowseByMetadataPageComponent" where
  \<comment> \<open>\<^verbatim>\<open>sub.unsubscribe()\<close>: the subscription is closed from now on; on a closed one the
      call changes nothing.\<close>
  "unsubscribe sub c = c\<lparr>closed := insert sub (closed c), calls := calls c @ [Unsubscribe sub]\<rparr>"

fun forEach_unsubscribe ::
  "nat option list \<Rightarrow> 'p BrowseByMetadataPageComponent \<Rightarrow> 'p BrowseByMetadataPageComponent" where
  "forEach_unsubscribe [] c = c"
| "forEach_unsubscribe (None # ss) c = forEach_unsubscribe ss c"
| "forEach_unsubscribe (Some sub # ss) c = forEach_unsubscribe ss (unsubscribe sub c)"

definition ngOnDestroy ::
  "'p BrowseByMetadataPageComponent \<Rightarrow> 'p BrowseByMetadataPageComponent" where
  "ngOnDestroy c =
     (let c1 = forEach_unsubscribe (filter (\<lambda>sub. hasValue sub) (subs c)) c
      in c1\<lparr>calls := calls c1 @ [ClearPagination (id_fld paginationConfig)]\<rparr>)"

section \<open>The submission form\<close>

subsection \<open>Data\<close>

text \<open>
  The framework's \<^verbatim>\<open>SimpleChange\<close>, and \<^verbatim>\<open>SimpleChanges\<close> as a map from the name of an
  input to its change. An input that did not change has no entry.
\<close>

record SimpleChange =
  previousValue :: "string option"
  currentValue :: "string option"
  firstChange :: bool

type_synonym SimpleChanges = "string \<rightharpoonup> SimpleChange"

text \<open>\<^verbatim>\<open>new NewSubmissionFormAction(collectionId, submissionId)\<close>, the action dispatched to the store.\<close>

datatype action = NewSubmissionFormAction "string option" "string option"

record SubmissionDefinition =
  isDefault :: bool

text \<open>
  The definitions object of the store's state, as the list of its entries in the order
  in which \<^verbatim>\<open>Object.keys\<close> enumerates them.
\<close>

type_synonym definitions = "(string \<times> SubmissionDefinition) list"

text \<open>
  The component; \<open>dispatched\<close> is not a field of the class: it is the list of the actions
  dispatched to the store, oldest first.
\<close>

record SubmissionSubmitFormComponent =
  collectionId :: "string option"
  submissionId :: "string option"
  definitionId :: "string option"
  isLoading :: bool
  dispatched :: "action list"

subsection \<open>Operations\<close>

text \<open>
  Modelled from the spec: \<^verbatim>\<open>isUndefined\<close> and \<^verbatim>\<open>isEmpty\<close> of \<^verbatim>\<open>shared/empty.util\<close>
  (not among the sources) on the definition map. The spec: the coordinator waits until
  the map "is non-empty", that is, until it is there and has an entry.
\<close>

definition isUndefined :: "'a option \<Rightarrow> bool" where
  "isUndefined obj = (obj = None)"

definition isEmpty_definitions :: "definitions option \<Rightarrow> bool" where
  "isEmpty_definitions obj = (case obj of None \<Rightarrow> True | Some ds \<Rightarrow> ds = [])"

definition Object_keys :: "definitions \<Rightarrow> string list" where
  "Object_keys ds = map fst ds"

definition pop :: "'a list \<Rightarrow> 'a option" where
  \<comment> \<open>\<^verbatim>\<open>Array.prototype.pop\<close>: the last element, \<^verbatim>\<open>undefined\<close> on an empty array.\<close>
  "pop xs = (if xs = [] then None else Some (last xs))"

definition isDefault_of :: "definitions \<Rightarrow> string \<Rightarrow> bool" where
  \<comment> \<open>\<^verbatim>\<open>definitions[definitionId].isDefault\<close>\<close>
  "isDefault_of ds key =
     (case map_of ds key of None \<Rightarrow> False | Some d \<Rightarrow> isDefault d)"

fun distinctUntilChanged_from :: "'a option \<Rightarrow> 'a list \<Rightarrow> 'a list" where
  \<comment> \<open>The first argument is the value emitted last, if any.\<close>
  "distinctUntilChanged_from prev [] = []"
| "distinctUntilChanged_from prev (x # xs) =
     (if prev = Some x then distinctUntilChanged_from prev xs
      else x # distinctUntilChanged_from (Some x) xs)"

definition distinctUntilChanged :: "'a list \<Rightarrow> 'a list" where
  "distinctUntilChanged xs = distinctUntilChanged_from None xs"

definition default_key :: "definitions \<Rightarrow> string option" where
  \<comment> \<open>The function given to \<^verbatim>\<open>map\<close>.\<close>
  "default_key ds = pop (filter (\<lambda>key. isDefault_of ds key) (Object_keys ds))"

definition getDefaultSubmissionDefinition :: "definitions option list \<Rightarrow> string option list" where
  \<comment> \<open>The argument is what \<^verbatim>\<open>store.select(definitionsSelector)\<close> emits, in order; the
      result is what the returned observable emits.\<close>
  "getDefaultSubmissionDefinition selected =
     distinctUntilChanged
       (map (\<lambda>ds. case ds of None \<Rightarrow> None | Some ds' \<Rightarrow> default_key ds')
          (filter (\<lambda>ds. \<not> isUndefined ds \<and> \<not> isEmpty_definitions ds) selected))"

definition SubmitForm_ngOnChanges ::
  "SimpleChanges \<Rightarrow> SubmissionSubmitFormComponent \<Rightarrow> SubmissionSubmitFormComponent" where
  "SubmitForm_ngOnChanges changes c =
     (if hasValue (changes ''collectionId'')
         \<and> hasValue (Option.bind (changes ''collectionId'') currentValue)
         \<and> hasValue (changes ''submissionId'')
         \<and> hasValue (Option.bind (changes ''submissionId'') currentValue)
      then c\<lparr>dispatched := dispatched c @ [NewSubmissionFormAction (collectionId c) (submissionId c)]\<rparr>
      else c)"

definition SubmitForm_ngOnInit ::
  "definitions option list \<Rightarrow> SubmissionSubmitFormComponent \<Rightarrow> SubmissionSubmitFormComponent" where
  \<comment> \<open>The subscriber runs on each value that \<open>getDefaultSubmissionDefinition\<close> emits.\<close>
  "SubmitForm_ngOnInit selected c =
     foldl (\<lambda>c' key. c'\<lparr>definitionId := key, isLoading := False\<rparr>) c
       (getDefaultSubmissionDefinition selected)"

definition new_SubmitForm :: SubmissionSubmitFormComponent where
  "new_SubmitForm =
     \<lparr>collectionId = None, submissionId = None, definitionId = None, isLoading = True,
      dispatched = []\<rparr>"

section \<open>Properties of the browse-by-metadata page\<close>

subsection \<open>Coercion of the parameters\<close>

lemma trim_empty: "trim [] = []"
  by code_simp

lemma StringToNumber_empty: "StringToNumber [] = Finite 0"
  by (simp add: StringToNumber_def trim_empty)

lemma plus_or_absent: "plus_or None = None"
  by (simp add: plus_or_def or_js_def)

lemma plus_or_string:
  "plus_or (Some (Str s)) =
     (if StringToNumber s \<noteq> NaN \<and> \<not> isZero (StringToNumber s)
      then Some (Num (StringToNumber s)) else Some (Str s))"
  by (simp add: plus_or_def or_js_def)

lemma plus_or_param:
  "plus_or (param params key) =
     (case params key of
        None \<Rightarrow> None
      | Some s \<Rightarrow>
          if StringToNumber s \<noteq> NaN \<and> \<not> isZero (StringToNumber s)
          then Some (Num (StringToNumber s)) else Some (Str s))"
  by (simp add: param_def plus_or_absent plus_or_string split: option.split)

lemma value_or_empty:
  "or_js (plus_or (param params key)) (Some (Str [])) =
     (case params key of
        None \<Rightarrow> Some (Str [])
      | Some s \<Rightarrow>
          if StringToNumber s \<noteq> NaN \<and> \<not> isZero (StringToNumber s)
          then Some (Num (StringToNumber s)) else Some (Str s))"
  by (auto simp add: plus_or_param or_js_def split: option.split)

lemma isNotEmpty_value:
  "isNotEmpty (or_js (plus_or (param params key)) (Some (Str []))) =
     (case params key of None \<Rightarrow> False | Some s \<Rightarrow> s \<noteq> [])"
  by (auto simp add: value_or_empty isNotEmpty_def StringToNumber_empty split: option.split)

lemma ngOnInit_next_fields:
  "value_fld (ngOnInit_next routeParams queryParams page srt c)
     = or_js (plus_or (param (routeParams ++ queryParams) ''value'')) (Some (Str []))"
  "startsWith (ngOnInit_next routeParams queryParams page srt c)
     = plus_or (param (routeParams ++ queryParams) ''startsWith'')"
  "browseId (ngOnInit_next routeParams queryParams page srt c)
     = or_js (param (routeParams ++ queryParams) ''id'') (Some (Str defaultBrowseId))"
  "authority (ngOnInit_next routeParams queryParams page srt c)
     = param (routeParams ++ queryParams) ''authority''"
  by (simp_all add: ngOnInit_next_def Let_def updateParent_def updatePage_def
      updatePageWithItems_def)

subsection \<open>Conversions at concrete strings\<close>

lemma floor_numeral_div: "\<lfloor>(numeral a :: rat) / numeral b\<rfloor> = numeral a div numeral b"
  using floor_divide_of_int_eq [of "numeral a" "numeral b", where ?'a = rat] by simp

lemma quotient_of_of_int: "quotient_of (of_int a) = (a, 1)"
  by (simp add: of_int_rat quotient_of_Fract)

lemma bitLength_1: "bitLength 1 = 1"
  by code_simp

lemma bitLength_10_400: "bitLength (10 ^ 400) = 1329"
  by code_simp

lemma bitLength_2_53_1: "bitLength 9007199254740993 = 54"
  by code_simp

lemma roundToDouble_0: "roundToDouble 0 = Finite 0"
  by (simp add: roundToDouble_def)

lemma roundToDouble_5: "roundToDouble 5 = Finite 5"
  by (simp add: roundToDouble_def floorLog2_def roundHalfEven_def pow2_def Let_def)

text \<open>\<open>2\<^sup>5\<^sup>3 + 1\<close> lies halfway between two doubles and goes to the even one.\<close>

lemma roundToDouble_tie: "roundToDouble 9007199254740993 = Finite 9007199254740992"
proof -
  have f: "floorLog2 9007199254740993 = 53"
    by (simp add: floorLog2_def bitLength_2_53_1 bitLength_1 pow2_def)
  have h: "roundHalfEven (9007199254740993 / 2) = 4503599627370496"
    by (simp add: roundHalfEven_def Let_def floor_numeral_div)
  show ?thesis
    by (simp add: roundToDouble_def f Let_def pow2_def h)
qed

text \<open>\<open>10\<^sup>4\<^sup>0\<^sup>0\<close> is beyond the largest double.\<close>

lemma roundToDouble_overflow: "roundToDouble (10 ^ 400) = PosInfinity"
proof -
  have "(10::rat) ^ 400 = of_int (10 ^ 400)"
    by (simp only: of_int_power of_int_numeral)
  then have q: "quotient_of ((10::rat) ^ 400) = (10 ^ 400, 1)"
    by (simp only: quotient_of_of_int)
  have "pow2 1328 \<le> 10 ^ 400"
    by (simp add: pow2_def)
  then have "pow2 (1329 - 1) \<le> 10 ^ 400"
    by simp
  then have f: "floorLog2 (10 ^ 400) = 1328"
    by (simp only: floorLog2_def q Let_def case_prod_conv bitLength_10_400 bitLength_1 if_True)
  have "pow2 1024 \<le> of_int (roundHalfEven (10 ^ 400 / pow2 1276)) * pow2 1276"
    by (simp add: pow2_def roundHalfEven_def Let_def floor_numeral_div)
  moreover have "max (1328::int) (- 1022) - 52 = 1276"
    by simp
  moreover have "(10::rat) ^ 400 \<noteq> 0" "\<bar>(10::rat) ^ 400\<bar> = 10 ^ 400" "(0::rat) < 10 ^ 400"
    by simp_all
  ultimately show ?thesis
    by (simp only: roundToDouble_def f Let_def if_True if_False)
qed

lemma trim_5: "trim ''5'' = ''5''"
  by code_simp

lemma trim_0: "trim ''0'' = ''0''"
  by code_simp

lemma trim_Smith: "trim ''Smith'' = ''Smith''"
  by code_simp

lemma trim_1e400: "trim ''1e400'' = ''1e400''"
  by code_simp

text \<open>An em space (U+2003) before the digit and a byte order mark (U+FEFF) after it.\<close>

lemma trim_unicode: "trim ([CHR 0xE2, CHR 0x80, CHR 0x83] @ ''5'' @ [CHR 0xEF, CHR 0xBB, CHR 0xBF]) = ''5''"
  by code_simp

lemmas literal_defs =
  nonDecimal_def unsignedDecimal_def isDecimalDigit_def digitOf_def exponentPart_def
  integerMV_def Let_def

lemma StringToNumber_5: "StringToNumber ''5'' = Finite 5"
  by (simp add: StringToNumber_def trim_5 literal_defs scale10_def roundToDouble_5)

lemma StringToNumber_0: "StringToNumber ''0'' = Finite 0"
  by (simp add: StringToNumber_def trim_0 literal_defs scale10_def roundToDouble_0)

lemma StringToNumber_Smith: "StringToNumber ''Smith'' = NaN"
  by (simp add: StringToNumber_def trim_Smith literal_defs)

lemma StringToNumber_unicode:
  "StringToNumber ([CHR 0xE2, CHR 0x80, CHR 0x83] @ ''5'' @ [CHR 0xEF, CHR 0xBB, CHR 0xBF]) = Finite 5"
  by (simp only: StringToNumber_def trim_unicode)
    (simp add: literal_defs scale10_def roundToDouble_5)

lemma StringToNumber_1e400: "StringToNumber ''1e400'' = PosInfinity"
proof -
  have "StringToNumber ''1e400'' = unsignedDecimal ''1e400''"
    by (simp add: StringToNumber_def trim_1e400 nonDecimal_def)
  also have "\<dots> = roundToDouble (scale10 1 400)"
    by (simp add: literal_defs)
  finally have "StringToNumber ''1e400'' = roundToDouble (scale10 1 400)" .
  moreover have "scale10 1 400 = 10 ^ 400"
    by (simp add: scale10_def)
  ultimately show ?thesis
    by (simp only: roundToDouble_overflow)
qed

text \<open>
  Claim C4, as the code has it. Under \<^verbatim>\<open>+x || x\<close> a \<^verbatim>\<open>value\<close> or \<^verbatim>\<open>startsWith\<close>
  parameter whose numeric conversion is a number other than zero becomes that number
  (the double that the conversion gives: the one nearest to the literal, an infinity
  beyond the range); a string that converts to NaN, and also one that converts to zero,
  stays the string it is. An absent \<^verbatim>\<open>startsWith\<close> stays absent, an absent \<^verbatim>\<open>value\<close>
  becomes the empty string. \<^verbatim>\<open>browseParamsToOptions\<close> treats \<^verbatim>\<open>startsWith\<close> by the
  same rule.
\<close>

theorem coercion_of_value_and_startsWith:
  fixes c :: "'p BrowseByMetadataPageComponent"
  shows
    "(\<forall>s. (routeParams ++ queryParams) ''value'' = Some s \<and> StringToNumber s \<noteq> NaN
          \<and> \<not> isZero (StringToNumber s)
        \<longrightarrow> value_fld (ngOnInit_next routeParams queryParams page srt c)
              = Some (Num (StringToNumber s)))
     \<and> (\<forall>s. (routeParams ++ queryParams) ''value'' = Some s
            \<and> (StringToNumber s = NaN \<or> isZero (StringToNumber s))
        \<longrightarrow> value_fld (ngOnInit_next routeParams queryParams page srt c) = Some (Str s))
     \<and> ((routeParams ++ queryParams) ''value'' = None
        \<longrightarrow> value_fld (ngOnInit_next routeParams queryParams page srt c) = Some (Str []))
     \<and> (\<forall>s. (routeParams ++ queryParams) ''startsWith'' = Some s \<and> StringToNumber s \<noteq> NaN
          \<and> \<not> isZero (StringToNumber s)
        \<longrightarrow> startsWith (ngOnInit_next routeParams queryParams page srt c)
              = Some (Num (StringToNumber s)))
     \<and> (\<forall>s. (routeParams ++ queryParams) ''startsWith'' = Some s
            \<and> (StringToNumber s = NaN \<or> isZero (StringToNumber s))
        \<longrightarrow> startsWith (ngOnInit_next routeParams queryParams page srt c) = Some (Str s))
     \<and> ((routeParams ++ queryParams) ''startsWith'' = None
        \<longrightarrow> startsWith (ngOnInit_next routeParams queryParams page srt c) = None)
     \<and> startsWith_opt (browseParamsToOptions (routeParams ++ queryParams) page srt m)
        = startsWith (ngOnInit_next routeParams queryParams page srt c)"
proof -
  define P where "P = routeParams ++ queryParams"
  have v: "value_fld (ngOnInit_next routeParams queryParams page srt c) =
             (case P ''value'' of
                None \<Rightarrow> Some (Str [])
              | Some s \<Rightarrow>
                  if StringToNumber s \<noteq> NaN \<and> \<not> isZero (StringToNumber s)
                  then Some (Num (StringToNumber s)) else Some (Str s))"
    unfolding P_def by (simp only: ngOnInit_next_fields value_or_empty)
  have w: "startsWith (ngOnInit_next routeParams queryParams page srt c) =
             (case P ''startsWith'' of
                None \<Rightarrow> None
              | Some s \<Rightarrow>
                  if StringToNumber s \<noteq> NaN \<and> \<not> isZero (StringToNumber s)
                  then Some (Num (StringToNumber s)) else Some (Str s))"
    unfolding P_def by (simp only: ngOnInit_next_fields plus_or_param)
  have o: "startsWith_opt (browseParamsToOptions P page srt m) = plus_or (param P ''startsWith'')"
    by (simp add: browseParamsToOptions_def)
  show ?thesis
    unfolding P_def [symmetric] v w o plus_or_param by auto
qed

theorem coercion_of_value_and_startsWith_witness:
  "value_fld (ngOnInit_next [''value'' \<mapsto> ''Smith''] [''startsWith'' \<mapsto> ''5''] paginationConfig
       (SortOptions ''default'' ASC) (new_component :: nat BrowseByMetadataPageComponent))
     = Some (Str ''Smith'')
   \<and> startsWith (ngOnInit_next [''value'' \<mapsto> ''Smith''] [''startsWith'' \<mapsto> ''5''] paginationConfig
       (SortOptions ''default'' ASC) (new_component :: nat BrowseByMetadataPageComponent))
     = Some (Num (Finite 5))
   \<and> value_fld (ngOnInit_next [''id'' \<mapsto> ''title''] Map.empty paginationConfig
       (SortOptions ''default'' ASC) (new_component :: nat BrowseByMetadataPageComponent))
     = Some (Str [])
   \<and> startsWith (ngOnInit_next [''id'' \<mapsto> ''title''] Map.empty paginationConfig
       (SortOptions ''default'' ASC) (new_component :: nat BrowseByMetadataPageComponent))
     = None
   \<and> value_fld (ngOnInit_next Map.empty [''value'' \<mapsto> ''1e400''] paginationConfig
       (SortOptions ''default'' ASC) (new_component :: nat BrowseByMetadataPageComponent))
     = Some (Num PosInfinity)"
  using
    coercion_of_value_and_startsWith
      [of "[''value'' \<mapsto> ''Smith'']" "[''startsWith'' \<mapsto> ''5'']" paginationConfig
        "SortOptions ''default'' ASC" "new_component :: nat BrowseByMetadataPageComponent"]
    coercion_of_value_and_startsWith
      [of "[''id'' \<mapsto> ''title'']" Map.empty paginationConfig
        "SortOptions ''default'' ASC" "new_component :: nat BrowseByMetadataPageComponent"]
    coercion_of_value_and_startsWith
      [of Map.empty "[''value'' \<mapsto> ''1e400'']" paginationConfig
        "SortOptions ''default'' ASC" "new_component :: nat BrowseByMetadataPageComponent"]
  by (simp add: StringToNumber_5 StringToNumber_Smith StringToNumber_1e400)

text \<open>
  Claim C4 as written fails: \<^verbatim>\<open>"0"\<close> is a numeric string (it converts to the number
  0) and stays the string \<^verbatim>\<open>"0"\<close>, in the component and in
  \<^verbatim>\<open>browseParamsToOptions\<close>; and with no \<^verbatim>\<open>value\<close> parameter the component's value is
  the empty string, not absent.
\<close>

theorem coercion_counterexample:
  "StringToNumber ''0'' = Finite 0
   \<and> startsWith (ngOnInit_next Map.empty [''startsWith'' \<mapsto> ''0''] paginationConfig
       (SortOptions ''default'' ASC) (new_component :: nat BrowseByMetadataPageComponent))
     = Some (Str ''0'')
   \<and> startsWith_opt (browseParamsToOptions [''startsWith'' \<mapsto> ''0''] paginationConfig
       (SortOptions ''default'' ASC) (Some (Str ''author'')))
     = Some (Str ''0'')
   \<and> [''startsWith'' \<mapsto> ''0''] ''value'' = None
   \<and> value_fld (ngOnInit_next Map.empty [''startsWith'' \<mapsto> ''0''] paginationConfig
       (SortOptions ''default'' ASC) (new_component :: nat BrowseByMetadataPageComponent))
     = Some (Str [])"
  by (simp add: ngOnInit_next_fields plus_or_param or_js_def browseParamsToOptions_def
      StringToNumber_0)

subsection \<open>The two result slots\<close>

text \<open>
  Claim C1, as the code has it. \<^verbatim>\<open>updatePage\<close> sets the entries slot and clears the items
  slot. \<^verbatim>\<open>updatePageWithItems\<close> sets the items slot and leaves the entries slot as it
  was.
\<close>

theorem updatePage_and_updatePageWithItems_slots:
  fixes c :: "'p BrowseByMetadataPageComponent"
  shows
    "items_s (updatePage searchOptions c) = None
     \<and> browseEntries_s (updatePage searchOptions c)
         = Some (Returned (GetBrowseEntriesFor searchOptions))
     \<and> items_s (updatePageWithItems searchOptions v auth c)
         = Some (Returned (GetBrowseItemsFor v auth searchOptions))
     \<and> browseEntries_s (updatePageWithItems searchOptions v auth c) = browseEntries_s c"
  by (simp add: updatePage_def updatePageWithItems_def)

text \<open>
  Claim C1 as written fails: \<^verbatim>\<open>ngOnInit\<close> fills the entries slot, and a call of
  \<^verbatim>\<open>updatePageWithItems\<close> after it leaves the page with both slots filled.
\<close>

theorem both_slots_counterexample:
  "browseEntries_s
     (updatePageWithItems
        (BrowseEntrySearchOptions (Some (Str ''author'')) paginationConfig
           (SortOptions ''default'' ASC) None None)
        (Some (Str ''Smith'')) None
        (ngOnInit 0 (new_component :: nat BrowseByMetadataPageComponent)))
     = Some (Returned (GetBrowseEntriesFor
         (BrowseEntrySearchOptions (Some (Str ''author'')) paginationConfig
            (SortOptions ''default'' ASC) None None)))
   \<and> items_s
     (updatePageWithItems
        (BrowseEntrySearchOptions (Some (Str ''author'')) paginationConfig
           (SortOptions ''default'' ASC) None None)
        (Some (Str ''Smith'')) None
        (ngOnInit 0 (new_component :: nat BrowseByMetadataPageComponent)))
     = Some (Returned (GetBrowseItemsFor (Some (Str ''Smith'')) None
         (BrowseEntrySearchOptions (Some (Str ''author'')) paginationConfig
            (SortOptions ''default'' ASC) None None)))"
  by (simp add: updatePageWithItems_def ngOnInit_def Let_def updatePage_def
      updateStartsWithTextOptions_def defaultBrowseId_def)

subsection \<open>Choice of the fetch\<close>

lemma browseId_resolved:
  "or_js (param params ''id'') (Some (Str defaultBrowseId)) =
     Some (Str (case params ''id'' of
                  None \<Rightarrow> ''author''
                | Some i \<Rightarrow> if i = [] then ''author'' else i))"
  by (simp add: or_js_def param_def defaultBrowseId_def split: option.split)

lemma ngOnInit_next_items:
  assumes "isNotEmpty (or_js (plus_or (param (routeParams ++ queryParams) ''value'')) (Some (Str [])))"
  shows "ngOnInit_next routeParams queryParams page srt c =
     updateParent (param (routeParams ++ queryParams) ''scope'')
       (updatePageWithItems
          (browseParamsToOptions (routeParams ++ queryParams) page srt
             (or_js (param (routeParams ++ queryParams) ''id'') (Some (Str defaultBrowseId))))
          (or_js (plus_or (param (routeParams ++ queryParams) ''value'')) (Some (Str [])))
          (param (routeParams ++ queryParams) ''authority'')
          (c\<lparr>browseId := or_js (param (routeParams ++ queryParams) ''id'') (Some (Str defaultBrowseId)),
             authority := param (routeParams ++ queryParams) ''authority'',
             value_fld := or_js (plus_or (param (routeParams ++ queryParams) ''value'')) (Some (Str [])),
             startsWith := plus_or (param (routeParams ++ queryParams) ''startsWith'')\<rparr>))"
  using assms by (simp add: ngOnInit_next_def Let_def)

lemma ngOnInit_next_entries:
  assumes "\<not> isNotEmpty (or_js (plus_or (param (routeParams ++ queryParams) ''value'')) (Some (Str [])))"
  shows "ngOnInit_next routeParams queryParams page srt c =
     updateParent (param (routeParams ++ queryParams) ''scope'')
       (updatePage
          (browseParamsToOptions (routeParams ++ queryParams) page srt
             (or_js (param (routeParams ++ queryParams) ''id'') (Some (Str defaultBrowseId))))
          (c\<lparr>browseId := or_js (param (routeParams ++ queryParams) ''id'') (Some (Str defaultBrowseId)),
             authority := param (routeParams ++ queryParams) ''authority'',
             value_fld := or_js (plus_or (param (routeParams ++ queryParams) ''value'')) (Some (Str [])),
             startsWith := plus_or (param (routeParams ++ queryParams) ''startsWith'')\<rparr>))"
  using assms by (simp add: ngOnInit_next_def Let_def)

lemma updateParent_slots:
  "items_s (updateParent scope c) = items_s c"
  "browseEntries_s (updateParent scope c) = browseEntries_s c"
  "calls (updateParent scope c) = calls c @ (if hasValue scope then [FindById scope] else [])"
  by (simp_all add: updateParent_def)

text \<open>
  Claim C5. On a merged parameter snapshot with a \<^verbatim>\<open>value\<close> that is a non-empty string,
  the component asks the browse service for the items of the coerced value, with the
  \<^verbatim>\<open>authority\<close> parameter, and makes that the items slot. On a snapshot with no
  \<^verbatim>\<open>value\<close>, or an empty one, it asks for the browse entries, makes that the entries slot
  and clears the items slot. Both requests carry the search options of the snapshot,
  whose metadata definition is the \<^verbatim>\<open>id\<close> parameter, or \<^verbatim>\<open>'author'\<close> when there is none
  (or an empty one). The coerced value is non-empty exactly in the first case.
\<close>

theorem ngOnInit_next_fetch:
  fixes c :: "'p BrowseByMetadataPageComponent"
  shows
    "(\<forall>s. (routeParams ++ queryParams) ''value'' = Some s \<and> s \<noteq> [] \<longrightarrow>
        isNotEmpty (value_fld (ngOnInit_next routeParams queryParams page srt c))
        \<and> items_s (ngOnInit_next routeParams queryParams page srt c)
            = Some (Returned (GetBrowseItemsFor
                (value_fld (ngOnInit_next routeParams queryParams page srt c))
                (param (routeParams ++ queryParams) ''authority'')
                (browseParamsToOptions (routeParams ++ queryParams) page srt
                   (browseId (ngOnInit_next routeParams queryParams page srt c)))))
        \<and> calls (ngOnInit_next routeParams queryParams page srt c)
            = calls c
              @ [GetBrowseItemsFor
                   (value_fld (ngOnInit_next routeParams queryParams page srt c))
                   (param (routeParams ++ queryParams) ''authority'')
                   (browseParamsToOptions (routeParams ++ queryParams) page srt
                      (browseId (ngOnInit_next routeParams queryParams page srt c)))]
              @ (if hasValue (param (routeParams ++ queryParams) ''scope'')
                 then [FindById (param (routeParams ++ queryParams) ''scope'')] else []))
     \<and> ((routeParams ++ queryParams) ''value'' = None
          \<or> (routeParams ++ queryParams) ''value'' = Some [] \<longrightarrow>
        \<not> isNotEmpty (value_fld (ngOnInit_next routeParams queryParams page srt c))
        \<and> browseEntries_s (ngOnInit_next routeParams queryParams page srt c)
            = Some (Returned (GetBrowseEntriesFor
                (browseParamsToOptions (routeParams ++ queryParams) page srt
                   (browseId (ngOnInit_next routeParams queryParams page srt c)))))
        \<and> items_s (ngOnInit_next routeParams queryParams page srt c) = None
        \<and> calls (ngOnInit_next routeParams queryParams page srt c)
            = calls c
              @ [GetBrowseEntriesFor
                   (browseParamsToOptions (routeParams ++ queryParams) page srt
                      (browseId (ngOnInit_next routeParams queryParams page srt c)))]
              @ (if hasValue (param (routeParams ++ queryParams) ''scope'')
                 then [FindById (param (routeParams ++ queryParams) ''scope'')] else []))
     \<and> browseId (ngOnInit_next routeParams queryParams page srt c)
         = Some (Str (case (routeParams ++ queryParams) ''id'' of
                        None \<Rightarrow> ''author''
                      | Some i \<Rightarrow> if i = [] then ''author'' else i))
     \<and> metadataDefinition
           (browseParamsToOptions (routeParams ++ queryParams) page srt
              (browseId (ngOnInit_next routeParams queryParams page srt c)))
         = browseId (ngOnInit_next routeParams queryParams page srt c)"
proof -
  define P where "P = routeParams ++ queryParams"
  define c' where "c' = ngOnInit_next routeParams queryParams page srt c"
  have v: "value_fld c' = or_js (plus_or (param P ''value'')) (Some (Str []))"
    and b: "browseId c' = or_js (param P ''id'') (Some (Str defaultBrowseId))"
    unfolding P_def c'_def by (simp_all only: ngOnInit_next_fields)
  have ne: "isNotEmpty (value_fld c') = (case P ''value'' of None \<Rightarrow> False | Some s \<Rightarrow> s \<noteq> [])"
    unfolding v by (rule isNotEmpty_value)
  have items: "items_s c' = Some (Returned (GetBrowseItemsFor (value_fld c')
                  (param P ''authority'') (browseParamsToOptions P page srt (browseId c'))))
               \<and> calls c' = calls c
                  @ [GetBrowseItemsFor (value_fld c') (param P ''authority'')
                       (browseParamsToOptions P page srt (browseId c'))]
                  @ (if hasValue (param P ''scope'') then [FindById (param P ''scope'')] else [])"
    if "isNotEmpty (value_fld c')"
  proof -
    from that have "isNotEmpty (or_js (plus_or (param (routeParams ++ queryParams) ''value'')) (Some (Str [])))"
      by (simp add: v P_def)
    from ngOnInit_next_items [OF this, of page srt c]
    show ?thesis
      unfolding v b unfolding c'_def P_def
      by (simp add: updateParent_slots updatePageWithItems_def)
  qed
  have entries: "browseEntries_s c' = Some (Returned (GetBrowseEntriesFor
                    (browseParamsToOptions P page srt (browseId c'))))
                 \<and> items_s c' = None
                 \<and> calls c' = calls c
                    @ [GetBrowseEntriesFor (browseParamsToOptions P page srt (browseId c'))]
                    @ (if hasValue (param P ''scope'') then [FindById (param P ''scope'')] else [])"
    if "\<not> isNotEmpty (value_fld c')"
  proof -
    from that have "\<not> isNotEmpty (or_js (plus_or (param (routeParams ++ queryParams) ''value'')) (Some (Str [])))"
      by (simp add: v P_def)
    from ngOnInit_next_entries [OF this, of page srt c]
    show ?thesis
      unfolding v b unfolding c'_def P_def
      by (simp add: updateParent_slots updatePage_def)
  qed
  have bid: "browseId c' = Some (Str (case P ''id'' of None \<Rightarrow> ''author''
                                      | Some i \<Rightarrow> if i = [] then ''author'' else i))"
    unfolding b by (rule browseId_resolved)
  have md: "metadataDefinition (browseParamsToOptions P page srt (browseId c')) = browseId c'"
    by (simp add: browseParamsToOptions_def)
  have first: "\<forall>s. P ''value'' = Some s \<and> s \<noteq> [] \<longrightarrow>
        isNotEmpty (value_fld c')
        \<and> items_s c' = Some (Returned (GetBrowseItemsFor (value_fld c')
                  (param P ''authority'') (browseParamsToOptions P page srt (browseId c'))))
        \<and> calls c' = calls c
                  @ [GetBrowseItemsFor (value_fld c') (param P ''authority'')
                       (browseParamsToOptions P page srt (browseId c'))]
                  @ (if hasValue (param P ''scope'') then [FindById (param P ''scope'')] else [])"
    using items by (simp add: ne)
  have second: "P ''value'' = None \<or> P ''value'' = Some [] \<longrightarrow>
        \<not> isNotEmpty (value_fld c')
        \<and> browseEntries_s c' = Some (Returned (GetBrowseEntriesFor
                    (browseParamsToOptions P page srt (browseId c'))))
        \<and> items_s c' = None
        \<and> calls c' = calls c
                    @ [GetBrowseEntriesFor (browseParamsToOptions P page srt (browseId c'))]
                    @ (if hasValue (param P ''scope'') then [FindById (param P ''scope'')] else [])"
    using entries by (auto simp add: ne)
  from first second bid md show ?thesis
    unfolding P_def c'_def by blast
qed

theorem ngOnInit_next_fetch_witness:
  "items_s (ngOnInit_next [''id'' \<mapsto> ''subject'']
       [''value'' \<mapsto> ''Smith'', ''authority'' \<mapsto> ''a1''] paginationConfig
       (SortOptions ''default'' ASC) (new_component :: nat BrowseByMetadataPageComponent))
     = Some (Returned (GetBrowseItemsFor (Some (Str ''Smith'')) (Some (Str ''a1''))
         (BrowseEntrySearchOptions (Some (Str ''subject'')) paginationConfig
            (SortOptions ''default'' ASC) None None)))
   \<and> browseEntries_s (ngOnInit_next Map.empty Map.empty paginationConfig
       (SortOptions ''default'' ASC) (new_component :: nat BrowseByMetadataPageComponent))
     = Some (Returned (GetBrowseEntriesFor
         (BrowseEntrySearchOptions (Some (Str ''author'')) paginationConfig
            (SortOptions ''default'' ASC) None None)))
   \<and> items_s (ngOnInit_next Map.empty Map.empty paginationConfig
       (SortOptions ''default'' ASC) (new_component :: nat BrowseByMetadataPageComponent))
     = None"
  using
    ngOnInit_next_fetch
      [of "[''id'' \<mapsto> ''subject'']" "[''value'' \<mapsto> ''Smith'', ''authority'' \<mapsto> ''a1'']"
        paginationConfig "SortOptions ''default'' ASC"
        "new_component :: nat BrowseByMetadataPageComponent"]
    ngOnInit_next_fetch
      [of Map.empty Map.empty paginationConfig "SortOptions ''default'' ASC"
        "new_component :: nat BrowseByMetadataPageComponent"]
  by (simp add: ngOnInit_next_fields plus_or_absent plus_or_string or_js_def param_def
      browseParamsToOptions_def StringToNumber_Smith defaultBrowseId_def)

subsection \<open>Paging\<close>

lemma emit_after_subscribe:
  "emit (length (pending c)) p (subscribe obs h c) = handler_next h p c"
  by (simp add: emit_def subscribe_def)

lemma goPrev_items: "items_s c = Some items \<Longrightarrow> goPrev c = subscribe (FirstSucceeded items) PrevItems c"
  by (simp add: goPrev_def)

lemma goNext_items: "items_s c = Some items \<Longrightarrow> goNext c = subscribe (FirstSucceeded items) NextItems c"
  by (simp add: goNext_def)

lemma goPrev_entries:
  "items_s c = None \<Longrightarrow> browseEntries_s c = Some entries
     \<Longrightarrow> goPrev c = subscribe (FirstSucceeded entries) PrevEntries c"
  by (simp add: goPrev_def)

lemma goNext_entries:
  "items_s c = None \<Longrightarrow> browseEntries_s c = Some entries
     \<Longrightarrow> goNext c = subscribe (FirstSucceeded entries) NextEntries c"
  by (simp add: goNext_def)

text \<open>
  Claim C6. With both slots empty, \<^verbatim>\<open>goPrev\<close> and \<^verbatim>\<open>goNext\<close> leave the component as it
  is: nothing is subscribed, no call is made, no field changes. With the items slot
  filled they subscribe to the first succeeded value of that slot, and when it arrives
  the adjacent page of items is requested from it and becomes the items slot. With the
  items slot empty and the entries slot filled, the same happens on the entries slot.
  Nothing else changes.
\<close>

theorem goPrev_goNext_populated_slot:
  fixes c :: "'p BrowseByMetadataPageComponent"
  shows
    "(items_s c = None \<and> browseEntries_s c = None \<longrightarrow> goPrev c = c \<and> goNext c = c)
     \<and> (\<forall>items. items_s c = Some items \<longrightarrow>
          goPrev c = c\<lparr>pending := pending c @ [(FirstSucceeded items, PrevItems)]\<rparr>
          \<and> goNext c = c\<lparr>pending := pending c @ [(FirstSucceeded items, NextItems)]\<rparr>
          \<and> (\<forall>p. emit (length (pending c)) p (goPrev c)
                    = c\<lparr>items_s := Some (Returned (GetPrevBrowseItems p)),
                        calls := calls c @ [GetPrevBrowseItems p]\<rparr>
                 \<and> emit (length (pending c)) p (goNext c)
                    = c\<lparr>items_s := Some (Returned (GetNextBrowseItems p)),
                        calls := calls c @ [GetNextBrowseItems p]\<rparr>))
     \<and> (\<forall>entries. items_s c = None \<and> browseEntries_s c = Some entries \<longrightarrow>
          goPrev c = c\<lparr>pending := pending c @ [(FirstSucceeded entries, PrevEntries)]\<rparr>
          \<and> goNext c = c\<lparr>pending := pending c @ [(FirstSucceeded entries, NextEntries)]\<rparr>
          \<and> (\<forall>p. emit (length (pending c)) p (goPrev c)
                    = c\<lparr>browseEntries_s := Some (Returned (GetPrevBrowseEntries p)),
                        calls := calls c @ [GetPrevBrowseEntries p]\<rparr>
                 \<and> emit (length (pending c)) p (goNext c)
                    = c\<lparr>browseEntries_s := Some (Returned (GetNextBrowseEntries p)),
                        calls := calls c @ [GetNextBrowseEntries p]\<rparr>))"
proof (intro conjI allI impI)
  assume "items_s c = None \<and> browseEntries_s c = None"
  then show "goPrev c = c" and "goNext c = c"
    by (simp_all add: goPrev_def goNext_def)
next
  fix items p
  assume i: "items_s c = Some items"
  show "goPrev c = c\<lparr>pending := pending c @ [(FirstSucceeded items, PrevItems)]\<rparr>"
    by (simp add: goPrev_items [OF i] subscribe_def)
  show "goNext c = c\<lparr>pending := pending c @ [(FirstSucceeded items, NextItems)]\<rparr>"
    by (simp add: goNext_items [OF i] subscribe_def)
  show "emit (length (pending c)) p (goPrev c)
          = c\<lparr>items_s := Some (Returned (GetPrevBrowseItems p)),
              calls := calls c @ [GetPrevBrowseItems p]\<rparr>"
    by (simp add: goPrev_items [OF i] emit_after_subscribe)
  show "emit (length (pending c)) p (goNext c)
          = c\<lparr>items_s := Some (Returned (GetNextBrowseItems p)),
              calls := calls c @ [GetNextBrowseItems p]\<rparr>"
    by (simp add: goNext_items [OF i] emit_after_subscribe)
next
  fix entries p
  assume "items_s c = None \<and> browseEntries_s c = Some entries"
  then have i: "items_s c = None" and e: "browseEntries_s c = Some entries"
    by simp_all
  show "goPrev c = c\<lparr>pending := pending c @ [(FirstSucceeded entries, PrevEntries)]\<rparr>"
    by (simp add: goPrev_entries [OF i e] subscribe_def)
  show "goNext c = c\<lparr>pending := pending c @ [(FirstSucceeded entries, NextEntries)]\<rparr>"
    by (simp add: goNext_entries [OF i e] subscribe_def)
  show "emit (length (pending c)) p (goPrev c)
          = c\<lparr>browseEntries_s := Some (Returned (GetPrevBrowseEntries p)),
              calls := calls c @ [GetPrevBrowseEntries p]\<rparr>"
    by (simp add: goPrev_entries [OF i e] emit_after_subscribe)
  show "emit (length (pending c)) p (goNext c)
          = c\<lparr>browseEntries_s := Some (Returned (GetNextBrowseEntries p)),
              calls := calls c @ [GetNextBrowseEntries p]\<rparr>"
    by (simp add: goNext_entries [OF i e] emit_after_subscribe)
qed

theorem goPrev_goNext_populated_slot_witness:
  "goPrev (new_component :: nat BrowseByMetadataPageComponent) = new_component
   \<and> goNext (new_component :: nat BrowseByMetadataPageComponent) = new_component
   \<and> browseEntries_s
       (emit 0 (7 :: nat) (goNext (ngOnInit 0 (new_component :: nat BrowseByMetadataPageComponent))))
     = Some (Returned (GetNextBrowseEntries 7))
   \<and> items_s
       (emit 0 (7 :: nat)
          (goPrev (new_component\<lparr>items_s := Some (Returned (GetNextBrowseItems (3 :: nat)))\<rparr>)))
     = Some (Returned (GetPrevBrowseItems 7))"
proof -
  let ?n = "new_component :: nat BrowseByMetadataPageComponent"
  let ?c = "ngOnInit 0 ?n"
  let ?d = "?n\<lparr>items_s := Some (Returned (GetNextBrowseItems (3 :: nat)))\<rparr>"
  have n: "items_s ?n = None \<and> browseEntries_s ?n = None"
    by (simp add: new_component_def)
  have c: "items_s ?c = None
           \<and> browseEntries_s ?c = Some (Returned (GetBrowseEntriesFor
                 (BrowseEntrySearchOptions (Some (Str defaultBrowseId)) paginationConfig
                    (SortOptions ''default'' ASC) None None)))"
    and pc: "length (pending ?c) = 0"
    by (simp_all add: new_component_def ngOnInit_def Let_def updatePage_def
        updateStartsWithTextOptions_def)
  have d: "items_s ?d = Some (Returned (GetNextBrowseItems 3))"
    and pd: "length (pending ?d) = 0"
    by (simp_all add: new_component_def)
  from goPrev_goNext_populated_slot [of ?n] n
  have 1: "goPrev ?n = ?n \<and> goNext ?n = ?n"
    by blast
  from goPrev_goNext_populated_slot [of ?c] c
  have "emit (length (pending ?c)) 7 (goNext ?c)
          = ?c\<lparr>browseEntries_s := Some (Returned (GetNextBrowseEntries 7)),
               calls := calls ?c @ [GetNextBrowseEntries 7]\<rparr>"
    by blast
  then have 2: "browseEntries_s (emit 0 7 (goNext ?c)) = Some (Returned (GetNextBrowseEntries 7))"
    unfolding pc by simp
  from goPrev_goNext_populated_slot [of ?d] d
  have "emit (length (pending ?d)) 7 (goPrev ?d)
          = ?d\<lparr>items_s := Some (Returned (GetPrevBrowseItems 7)),
               calls := calls ?d @ [GetPrevBrowseItems 7]\<rparr>"
    by blast
  then have 3: "items_s (emit 0 7 (goPrev ?d)) = Some (Returned (GetPrevBrowseItems 7))"
    unfolding pd by simp
  from 1 2 3 show ?thesis
    by simp
qed

text \<open>
  Claim C10. With both slots filled, \<^verbatim>\<open>goNext\<close> and \<^verbatim>\<open>goPrev\<close> subscribe to the items
  slot only; when its first succeeded value arrives the items slot becomes the adjacent
  page of items, and the entries slot is what it was, before and after.
\<close>

theorem items_slot_first:
  fixes c :: "'p BrowseByMetadataPageComponent"
  assumes "items_s c = Some items" and "browseEntries_s c = Some entries"
  shows
    "pending (goNext c) = pending c @ [(FirstSucceeded items, NextItems)]
     \<and> pending (goPrev c) = pending c @ [(FirstSucceeded items, PrevItems)]
     \<and> browseEntries_s (goNext c) = Some entries
     \<and> browseEntries_s (goPrev c) = Some entries
     \<and> browseEntries_s (emit (length (pending c)) p (goNext c)) = Some entries
     \<and> browseEntries_s (emit (length (pending c)) p (goPrev c)) = Some entries
     \<and> items_s (emit (length (pending c)) p (goNext c)) = Some (Returned (GetNextBrowseItems p))
     \<and> items_s (emit (length (pending c)) p (goPrev c)) = Some (Returned (GetPrevBrowseItems p))
     \<and> calls (emit (length (pending c)) p (goNext c)) = calls c @ [GetNextBrowseItems p]
     \<and> calls (emit (length (pending c)) p (goPrev c)) = calls c @ [GetPrevBrowseItems p]"
  using assms
  by (simp add: goNext_items goPrev_items emit_after_subscribe) (simp add: subscribe_def)

theorem items_slot_first_witness:
  "browseEntries_s
     (emit 0 (7 :: nat)
        (goNext (ngOnInit_next Map.empty [''value'' \<mapsto> ''Smith''] paginationConfig
           (SortOptions ''default'' ASC)
           (ngOnInit 0 (new_component :: nat BrowseByMetadataPageComponent)))))
     = Some (Returned (GetBrowseEntriesFor
         (BrowseEntrySearchOptions (Some (Str ''author'')) paginationConfig
            (SortOptions ''default'' ASC) None None)))
   \<and> items_s
     (emit 0 (7 :: nat)
        (goNext (ngOnInit_next Map.empty [''value'' \<mapsto> ''Smith''] paginationConfig
           (SortOptions ''default'' ASC)
           (ngOnInit 0 (new_component :: nat BrowseByMetadataPageComponent)))))
     = Some (Returned (GetNextBrowseItems 7))"
proof -
  let ?c = "ngOnInit_next Map.empty [''value'' \<mapsto> ''Smith''] paginationConfig
              (SortOptions ''default'' ASC)
              (ngOnInit 0 (new_component :: nat BrowseByMetadataPageComponent))"
  let ?opts = "BrowseEntrySearchOptions (Some (Str ''author'')) paginationConfig
                 (SortOptions ''default'' ASC) None None"
  have i: "items_s ?c = Some (Returned (GetBrowseItemsFor (Some (Str ''Smith'')) None ?opts))"
    by (simp add: ngOnInit_next_def Let_def plus_or_absent plus_or_string or_js_def param_def
        browseParamsToOptions_def StringToNumber_Smith defaultBrowseId_def isNotEmpty_def
        updatePageWithItems_def updateParent_def hasValue_def)
  have e: "browseEntries_s ?c = Some (Returned (GetBrowseEntriesFor ?opts))"
    by (simp add: ngOnInit_next_def Let_def plus_or_absent plus_or_string or_js_def param_def
        browseParamsToOptions_def StringToNumber_Smith defaultBrowseId_def isNotEmpty_def
        updatePageWithItems_def updateParent_def hasValue_def ngOnInit_def updatePage_def
        updateStartsWithTextOptions_def)
  have p: "length (pending ?c) = 0"
    by (simp add: ngOnInit_next_def Let_def plus_or_absent plus_or_string or_js_def param_def
        browseParamsToOptions_def StringToNumber_Smith defaultBrowseId_def isNotEmpty_def
        updatePageWithItems_def updateParent_def hasValue_def ngOnInit_def updatePage_def
        updateStartsWithTextOptions_def new_component_def)
  from items_slot_first [OF i e, of 7] show ?thesis
    unfolding p by simp
qed

subsection \<open>The parent container\<close>

text \<open>
  Claim C8. \<^verbatim>\<open>updateParent\<close> looks the parent up by id, and makes the first succeeded
  result of the lookup the parent slot, exactly when the scope is present; with no scope
  it makes no call and leaves the component, its parent slot included, as it is. In the
  subscriber of \<^verbatim>\<open>ngOnInit\<close> the scope is the \<^verbatim>\<open>scope\<close> parameter of the merged snapshot.
\<close>

theorem updateParent_scope:
  fixes c :: "'p BrowseByMetadataPageComponent"
  shows
    "(hasValue scope \<longrightarrow>
        updateParent scope c
          = c\<lparr>parent_s := Some (FirstSucceeded (Returned (FindById scope))),
              calls := calls c @ [FindById scope]\<rparr>)
     \<and> (\<not> hasValue scope \<longrightarrow> updateParent scope c = c)
     \<and> (FindById scope \<in> set (calls (updateParent scope c)) - set (calls c)
          \<longrightarrow> hasValue scope)
     \<and> parent_s (ngOnInit_next routeParams queryParams page srt c)
         = (case (routeParams ++ queryParams) ''scope'' of
              None \<Rightarrow> parent_s c
            | Some s \<Rightarrow> Some (FirstSucceeded (Returned (FindById (Some (Str s))))))"
proof -
  define P where "P = routeParams ++ queryParams"
  have "parent_s (ngOnInit_next routeParams queryParams page srt c)
          = (if hasValue (param P ''scope'')
             then Some (FirstSucceeded (Returned (FindById (param P ''scope''))))
             else parent_s c)"
    unfolding P_def
    by (simp add: ngOnInit_next_def Let_def updateParent_def updatePage_def
        updatePageWithItems_def)
  also have "\<dots> = (case P ''scope'' of
                      None \<Rightarrow> parent_s c
                    | Some s \<Rightarrow> Some (FirstSucceeded (Returned (FindById (Some (Str s))))))"
    by (cases "P ''scope''") (simp_all add: param_def hasValue_def)
  finally show ?thesis
    unfolding P_def by (simp add: updateParent_def)
qed

theorem updateParent_scope_witness:
  "parent_s (updateParent (Some (Str ''c0ffee''))
       (new_component :: nat BrowseByMetadataPageComponent))
     = Some (FirstSucceeded (Returned (FindById (Some (Str ''c0ffee'')))))
   \<and> calls (updateParent (Some (Str ''c0ffee''))
       (new_component :: nat BrowseByMetadataPageComponent))
     = [FindById (Some (Str ''c0ffee''))]
   \<and> updateParent None (new_component :: nat BrowseByMetadataPageComponent) = new_component"
proof -
  let ?n = "new_component :: nat BrowseByMetadataPageComponent"
  have h: "hasValue (Some (Str ''c0ffee''))" and a: "\<not> hasValue (None :: jsval option)"
    by (simp_all add: hasValue_def)
  have cs: "calls ?n = []"
    by (simp add: new_component_def)
  from updateParent_scope [of "Some (Str ''c0ffee'')" ?n] h
  have 1: "updateParent (Some (Str ''c0ffee'')) ?n
             = ?n\<lparr>parent_s := Some (FirstSucceeded (Returned (FindById (Some (Str ''c0ffee''))))),
                  calls := calls ?n @ [FindById (Some (Str ''c0ffee''))]\<rparr>"
    by blast
  from updateParent_scope [of None ?n] a
  have 2: "updateParent None ?n = ?n"
    by blast
  show ?thesis
    unfolding 1 2 by (simp add: cs)
qed

subsection \<open>Teardown\<close>

lemma forEach_unsubscribe_eq:
  "forEach_unsubscribe ss c =
     c\<lparr>closed := closed c \<union> {sub. Some sub \<in> set ss},
       calls := calls c @ List.map_filter (map_option Unsubscribe) ss\<rparr>"
proof (induction ss c rule: forEach_unsubscribe.induct)
  case (1 c)
  show ?case by simp
next
  case (2 ss c)
  then show ?case by simp
next
  case (3 sub ss c)
  have "insert sub (closed c) \<union> {s. Some s \<in> set ss}
          = closed c \<union> {s. s = sub \<or> Some s \<in> set ss}"
    by auto
  with 3 show ?case
    by (simp add: unsubscribe_def)
qed

lemma filter_hasValue:
  "{sub. Some sub \<in> set (filter (\<lambda>s. hasValue s) ss)} = {sub. Some sub \<in> set ss}"
  "List.map_filter f (filter (\<lambda>s. hasValue s) ss) = List.map_filter f ss"
  if "f None = None"
  using that by (induction ss) (auto simp add: hasValue_def split: option.split)

text \<open>
  Claim C7. \<^verbatim>\<open>ngOnDestroy\<close> calls \<^verbatim>\<open>unsubscribe\<close> once on every subscription held in
  \<open>subs\<close>, in order, whether or not it was closed before, and skips the entries that are
  \<^verbatim>\<open>null\<close> or \<^verbatim>\<open>undefined\<close>; after that every one of them is closed. Then it clears the
  pagination state of the key \<^verbatim>\<open>'bbm'\<close>. Nothing else changes.
\<close>

theorem ngOnDestroy_releases:
  fixes c :: "'p BrowseByMetadataPageComponent"
  shows
    "ngOnDestroy c =
       c\<lparr>closed := closed c \<union> {sub. Some sub \<in> set (subs c)},
         calls := calls c @ List.map_filter (map_option Unsubscribe) (subs c)
                    @ [ClearPagination ''bbm'']\<rparr>
     \<and> (\<forall>sub. Some sub \<in> set (subs c) \<longrightarrow>
          sub \<in> closed (ngOnDestroy c) \<and> Unsubscribe sub \<in> set (calls (ngOnDestroy c)))
     \<and> (\<forall>sub. Unsubscribe sub \<in> set (calls (ngOnDestroy c)) - set (calls c) \<longrightarrow>
          Some sub \<in> set (subs c))
     \<and> last (calls (ngOnDestroy c)) = ClearPagination ''bbm''"
proof -
  have eq: "ngOnDestroy c =
       c\<lparr>closed := closed c \<union> {sub. Some sub \<in> set (subs c)},
         calls := calls c @ List.map_filter (map_option Unsubscribe) (subs c)
                    @ [ClearPagination ''bbm'']\<rparr>"
  proof -
    have a: "{sub. Some sub \<in> set (filter (\<lambda>s. hasValue s) (subs c))}
               = {sub. Some sub \<in> set (subs c)}"
      by (rule filter_hasValue) simp
    have b: "List.map_filter (map_option Unsubscribe) (filter (\<lambda>s. hasValue s) (subs c))
               = List.map_filter (map_option Unsubscribe) (subs c)"
      by (rule filter_hasValue) simp
    show ?thesis
      unfolding ngOnDestroy_def Let_def forEach_unsubscribe_eq a b
      by (simp add: paginationConfig_def BBM_PAGINATION_ID_def)
  qed
  have mf: "set (List.map_filter (map_option Unsubscribe) ss)
              = {Unsubscribe sub |sub. Some sub \<in> set ss}" for ss :: "nat option list"
    by (induction ss) (auto split: option.split)
  show ?thesis
    unfolding eq by (auto simp add: mf)
qed

theorem ngOnDestroy_releases_witness:
  "closed (ngOnDestroy
       ((new_component :: nat BrowseByMetadataPageComponent)
          \<lparr>subs := [Some 1, None, Some 2], closed := {2}\<rparr>))
     = {1, 2}
   \<and> calls (ngOnDestroy
       ((new_component :: nat BrowseByMetadataPageComponent)
          \<lparr>subs := [Some 1, None, Some 2], closed := {2}\<rparr>))
     = [Unsubscribe 1, Unsubscribe 2, ClearPagination ''bbm'']"
proof -
  let ?c = "(new_component :: nat BrowseByMetadataPageComponent)
              \<lparr>subs := [Some 1, None, Some 2], closed := {2}\<rparr>"
  have "ngOnDestroy ?c =
       ?c\<lparr>closed := closed ?c \<union> {sub. Some sub \<in> set (subs ?c)},
          calls := calls ?c @ List.map_filter (map_option Unsubscribe) (subs ?c)
                    @ [ClearPagination ''bbm'']\<rparr>"
    using ngOnDestroy_releases [of ?c] by blast
  then show ?thesis
    by (auto simp add: new_component_def)
qed

section \<open>Properties of the submission form\<close>

subsection \<open>Dispatch of the initialisation\<close>

text \<open>
  Claim C3, as the code has it. \<^verbatim>\<open>ngOnChanges\<close> dispatches one
  \<^verbatim>\<open>NewSubmissionFormAction\<close>, carrying the component's two ids, when the change set has
  an entry for \<^verbatim>\<open>collectionId\<close> and an entry for \<^verbatim>\<open>submissionId\<close> and the current value
  of each is present. When either entry is missing from the change set, or has no current
  value, it dispatches nothing and leaves the component as it is. The framework assigns
  the current values to the inputs before the call, so the action carries them.
\<close>

theorem ngOnChanges_dispatch:
  "(\<forall>cc sc. changes ''collectionId'' = Some cc \<and> currentValue cc \<noteq> None
        \<and> changes ''submissionId'' = Some sc \<and> currentValue sc \<noteq> None \<longrightarrow>
      SubmitForm_ngOnChanges changes c
        = c\<lparr>dispatched :=
              dispatched c @ [NewSubmissionFormAction (collectionId c) (submissionId c)]\<rparr>
      \<and> (collectionId c = currentValue cc \<and> submissionId c = currentValue sc \<longrightarrow>
           dispatched (SubmitForm_ngOnChanges changes c)
             = dispatched c @ [NewSubmissionFormAction (currentValue cc) (currentValue sc)]))
   \<and> (changes ''collectionId'' = None \<or> changes ''submissionId'' = None \<longrightarrow>
        SubmitForm_ngOnChanges changes c = c)
   \<and> (\<forall>ch. (changes ''collectionId'' = Some ch \<or> changes ''submissionId'' = Some ch)
          \<and> currentValue ch = None \<longrightarrow>
        SubmitForm_ngOnChanges changes c = c)"
  by (auto simp add: SubmitForm_ngOnChanges_def hasValue_def)

theorem ngOnChanges_dispatch_witness:
  "dispatched
     (SubmitForm_ngOnChanges
        [''collectionId'' \<mapsto> \<lparr>previousValue = None, currentValue = Some ''c1'', firstChange = True\<rparr>,
         ''submissionId'' \<mapsto> \<lparr>previousValue = None, currentValue = Some ''s1'', firstChange = True\<rparr>]
        (new_SubmitForm\<lparr>collectionId := Some ''c1'', submissionId := Some ''s1''\<rparr>))
     = [NewSubmissionFormAction (Some ''c1'') (Some ''s1'')]
   \<and> SubmitForm_ngOnChanges Map.empty new_SubmitForm = new_SubmitForm"
proof -
  let ?cc = "\<lparr>previousValue = None, currentValue = Some ''c1'', firstChange = True\<rparr>"
  let ?sc = "\<lparr>previousValue = None, currentValue = Some ''s1'', firstChange = True\<rparr>"
  let ?ch = "[''collectionId'' \<mapsto> ?cc, ''submissionId'' \<mapsto> ?sc]"
  let ?c = "new_SubmitForm\<lparr>collectionId := Some ''c1'', submissionId := Some ''s1''\<rparr>"
  have h: "?ch ''collectionId'' = Some ?cc \<and> currentValue ?cc \<noteq> None
           \<and> ?ch ''submissionId'' = Some ?sc \<and> currentValue ?sc \<noteq> None"
    by simp
  have b: "collectionId ?c = currentValue ?cc \<and> submissionId ?c = currentValue ?sc"
    by simp
  have d: "dispatched ?c = []"
    by (simp add: new_SubmitForm_def)
  from ngOnChanges_dispatch [of ?ch ?c] h b
  have 1: "dispatched (SubmitForm_ngOnChanges ?ch ?c)
             = dispatched ?c @ [NewSubmissionFormAction (currentValue ?cc) (currentValue ?sc)]"
    by blast
  have e: "Map.empty ''collectionId'' = (None :: SimpleChange option)"
    by simp
  from ngOnChanges_dispatch [of Map.empty new_SubmitForm] e
  have 2: "SubmitForm_ngOnChanges Map.empty new_SubmitForm = new_SubmitForm"
    by blast
  from 1 2 show ?thesis
    by (simp add: d)
qed

text \<open>
  Claim C3 as written fails: when only \<^verbatim>\<open>collectionId\<close> changes, with both ids present
  and non-empty, nothing is dispatched.
\<close>

theorem ngOnChanges_counterexample:
  "collectionId (new_SubmitForm\<lparr>collectionId := Some ''c1'', submissionId := Some ''s1''\<rparr>)
     = Some ''c1''
   \<and> submissionId (new_SubmitForm\<lparr>collectionId := Some ''c1'', submissionId := Some ''s1''\<rparr>)
     = Some ''s1''
   \<and> dispatched
       (SubmitForm_ngOnChanges
          [''collectionId'' \<mapsto>
             \<lparr>previousValue = Some ''c0'', currentValue = Some ''c1'', firstChange = False\<rparr>]
          (new_SubmitForm\<lparr>collectionId := Some ''c1'', submissionId := Some ''s1''\<rparr>))
     = []"
  by (simp add: SubmitForm_ngOnChanges_def hasValue_def new_SubmitForm_def)

subsection \<open>The default definition\<close>

lemma foldl_distinctUntilChanged_from:
  assumes "\<forall>v. prev = Some v \<longrightarrow> definitionId c = v \<and> \<not> isLoading c" and "xs \<noteq> []"
  shows "foldl (\<lambda>c' key. c'\<lparr>definitionId := key, isLoading := False\<rparr>) c
           (distinctUntilChanged_from prev xs)
         = c\<lparr>definitionId := last xs, isLoading := False\<rparr>"
  using assms
proof (induction xs arbitrary: prev c)
  case Nil
  then show ?case by simp
next
  case (Cons x xs)
  show ?case
  proof (cases "prev = Some x")
    case True
    with Cons.prems have c: "definitionId c = x" "\<not> isLoading c"
      by simp_all
    show ?thesis
    proof (cases "xs = []")
      case True
      with \<open>prev = Some x\<close> c show ?thesis by simp
    next
      case False
      with Cons.IH [OF Cons.prems(1) False] \<open>prev = Some x\<close> show ?thesis by simp
    qed
  next
    case False
    let ?c1 = "c\<lparr>definitionId := x, isLoading := False\<rparr>"
    have inv: "\<forall>v. Some x = Some v \<longrightarrow> definitionId ?c1 = v \<and> \<not> isLoading ?c1"
      by simp
    show ?thesis
    proof (cases "xs = []")
      case True
      with \<open>prev \<noteq> Some x\<close> show ?thesis by simp
    next
      case xs: False
      from Cons.IH [OF inv xs] \<open>prev \<noteq> Some x\<close> xs show ?thesis by simp
    qed
  qed
qed

lemma mapped_append:
  assumes "ds \<noteq> []"
  shows "map (\<lambda>ds. case ds of None \<Rightarrow> None | Some ds' \<Rightarrow> default_key ds')
           (filter (\<lambda>ds. \<not> isUndefined ds \<and> \<not> isEmpty_definitions ds) (es @ [Some ds]))
         = map (\<lambda>ds. case ds of None \<Rightarrow> None | Some ds' \<Rightarrow> default_key ds')
             (filter (\<lambda>ds. \<not> isUndefined ds \<and> \<not> isEmpty_definitions ds) es)
           @ [default_key ds]"
  using assms by (simp add: isUndefined_def isEmpty_definitions_def)

lemma ngOnInit_last_definitions:
  assumes "ds \<noteq> []"
  shows "SubmitForm_ngOnInit (es @ [Some ds]) c
           = c\<lparr>definitionId := default_key ds, isLoading := False\<rparr>"
proof -
  have "SubmitForm_ngOnInit (es @ [Some ds]) c
          = c\<lparr>definitionId :=
                 last (map (\<lambda>ds. case ds of None \<Rightarrow> None | Some ds' \<Rightarrow> default_key ds')
                         (filter (\<lambda>ds. \<not> isUndefined ds \<and> \<not> isEmpty_definitions ds) es)
                       @ [default_key ds]),
               isLoading := False\<rparr>"
    unfolding SubmitForm_ngOnInit_def getDefaultSubmissionDefinition_def
      distinctUntilChanged_def mapped_append [OF assms]
    by (rule foldl_distinctUntilChanged_from) simp_all
  then show ?thesis by simp
qed

lemma first_definitions:
  assumes "ds \<noteq> []" and "\<forall>e\<in>set es. e = None \<or> e = Some []"
  shows "getDefaultSubmissionDefinition (es @ [Some ds]) = [default_key ds]"
proof -
  have "isUndefined e \<or> isEmpty_definitions e" if "e \<in> set es" for e
  proof -
    from assms(2) that have "e = None \<or> e = Some []"
      by (rule bspec)
    then show ?thesis
      by (rule disjE) (simp_all add: isUndefined_def isEmpty_definitions_def)
  qed
  then have "filter (\<lambda>ds. \<not> isUndefined ds \<and> \<not> isEmpty_definitions ds) es = []"
    unfolding filter_empty_conv by blast
  then have "getDefaultSubmissionDefinition (es @ [Some ds])
               = distinctUntilChanged_from None ([] @ [default_key ds])"
    unfolding getDefaultSubmissionDefinition_def distinctUntilChanged_def mapped_append [OF assms(1)]
    by (simp only: list.map)
  then show ?thesis
    by simp
qed

lemma default_key_last:
  assumes "distinct (map fst ds)" and "ds = ds1 @ (k, d) # ds2" and "isDefault d"
    and "\<forall>e\<in>set ds2. \<not> isDefault (snd e)"
  shows "default_key ds = Some k"
proof -
  define P where "P = (\<lambda>key. isDefault_of ds key)"
  from assms(2) have "(k, d) \<in> set ds"
    by simp
  with assms(1) have "map_of ds k = Some d"
    by (simp only: map_of_eq_Some_iff)
  with assms(3) have k: "P k"
    by (simp add: P_def isDefault_of_def)
  have "\<not> P k'" if "k' \<in> set (map fst ds2)" for k'
  proof -
    from that obtain d' where in2: "(k', d') \<in> set ds2"
      by auto
    with assms(2) have "(k', d') \<in> set ds"
      by simp
    with assms(1) have "map_of ds k' = Some d'"
      by (simp only: map_of_eq_Some_iff)
    moreover from in2 assms(4) have "\<not> isDefault d'"
      by auto
    ultimately show ?thesis
      by (simp add: P_def isDefault_of_def)
  qed
  then have none: "filter P (map fst ds2) = []"
    by (simp add: filter_empty_conv)
  have keys: "Object_keys ds = map fst ds1 @ k # map fst ds2"
    unfolding Object_keys_def assms(2) by simp
  have "default_key ds = pop (filter P (Object_keys ds))"
    by (simp add: default_key_def P_def)
  also have "\<dots> = pop (filter P (map fst ds1) @ [k])"
    unfolding keys by (simp add: k none)
  also have "\<dots> = Some k"
    by (simp add: pop_def)
  finally show ?thesis .
qed

lemma default_key_none:
  assumes "\<forall>e\<in>set ds. \<not> isDefault (snd e)"
  shows "default_key ds = None"
proof -
  have "\<not> isDefault_of ds k" for k
  proof (cases "map_of ds k")
    case None
    then show ?thesis by (simp add: isDefault_of_def)
  next
    case (Some d)
    then have "(k, d) \<in> set ds"
      by (rule map_of_SomeD)
    with assms Some show ?thesis
      by (auto simp add: isDefault_of_def)
  qed
  then show ?thesis
    by (simp add: default_key_def pop_def)
qed

text \<open>
  Claim C2. Let the definitions object have an entry flagged \<^verbatim>\<open>isDefault\<close>, and let
  \<open>k\<close> be the key of the last such entry in the order of \<^verbatim>\<open>Object.keys\<close> (the only one,
  when one entry is flagged). When the store selects this object, after any earlier
  values, the subscriber of \<^verbatim>\<open>ngOnInit\<close> has set \<^verbatim>\<open>definitionId\<close> to \<open>k\<close> and
  \<^verbatim>\<open>isLoading\<close> to false; and when it is the first non-empty object selected,
  \<^verbatim>\<open>getDefaultSubmissionDefinition\<close> emits \<open>k\<close> and nothing else.
\<close>

theorem default_definition_selected:
  assumes "distinct (map fst ds)" and "ds = ds1 @ (k, d) # ds2" and "isDefault d"
    and "\<forall>e\<in>set ds2. \<not> isDefault (snd e)"
  shows
    "getDefaultSubmissionDefinition [Some ds] = [Some k]
     \<and> ((\<forall>e\<in>set es. e = None \<or> e = Some []) \<longrightarrow>
          getDefaultSubmissionDefinition (es @ [Some ds]) = [Some k])
     \<and> SubmitForm_ngOnInit (es @ [Some ds]) c = c\<lparr>definitionId := Some k, isLoading := False\<rparr>
     \<and> definitionId (SubmitForm_ngOnInit (es @ [Some ds]) c) = Some k
     \<and> isLoading (SubmitForm_ngOnInit (es @ [Some ds]) c) = False"
proof -
  from assms(2) have ne: "ds \<noteq> []"
    by simp
  have dk: "default_key ds = Some k"
    using assms by (rule default_key_last)
  have "getDefaultSubmissionDefinition ([] @ [Some ds]) = [default_key ds]"
    by (rule first_definitions [OF ne]) simp
  with dk first_definitions [OF ne, of es] ngOnInit_last_definitions [OF ne, of es c]
  show ?thesis
    by simp
qed

theorem default_definition_selected_witness:
  "getDefaultSubmissionDefinition
     [Some [(''A'', \<lparr>isDefault = False\<rparr>), (''B'', \<lparr>isDefault = True\<rparr>)]] = [Some ''B'']
   \<and> SubmitForm_ngOnInit
       [None, Some [], Some [(''A'', \<lparr>isDefault = False\<rparr>), (''B'', \<lparr>isDefault = True\<rparr>)]]
       new_SubmitForm
     = new_SubmitForm\<lparr>definitionId := Some ''B'', isLoading := False\<rparr>
   \<and> definitionId (SubmitForm_ngOnInit
       [Some [(''A'', \<lparr>isDefault = True\<rparr>), (''B'', \<lparr>isDefault = True\<rparr>),
              (''C'', \<lparr>isDefault = False\<rparr>)]]
       new_SubmitForm)
     = Some ''B''"
proof -
  let ?ds = "[(''A'', \<lparr>isDefault = False\<rparr>), (''B'', \<lparr>isDefault = True\<rparr>)]"
  let ?ds' = "[(''A'', \<lparr>isDefault = True\<rparr>), (''B'', \<lparr>isDefault = True\<rparr>),
               (''C'', \<lparr>isDefault = False\<rparr>)]"
  have 1: "distinct (map fst ?ds)" and 2: "?ds = [(''A'', \<lparr>isDefault = False\<rparr>)] @ (''B'', \<lparr>isDefault = True\<rparr>) # []"
    and 3: "isDefault \<lparr>isDefault = True\<rparr>" and 4: "\<forall>e\<in>set []. \<not> isDefault (snd e)"
    by simp_all
  have 5: "distinct (map fst ?ds')"
    and 6: "?ds' = [(''A'', \<lparr>isDefault = True\<rparr>)] @ (''B'', \<lparr>isDefault = True\<rparr>)
                     # [(''C'', \<lparr>isDefault = False\<rparr>)]"
    and 7: "\<forall>e\<in>set [(''C'', \<lparr>isDefault = False\<rparr>)]. \<not> isDefault (snd e)"
    by simp_all
  from default_definition_selected [OF 1 2 3 4, of "[None, Some []]" new_SubmitForm]
    default_definition_selected [OF 5 6 3 7, of "[]" new_SubmitForm]
  show ?thesis
    by simp
qed

text \<open>
  Claim C9. Let the definitions object be non-empty with no entry flagged \<^verbatim>\<open>isDefault\<close>.
  When it is the first non-empty object selected, \<^verbatim>\<open>getDefaultSubmissionDefinition\<close>
  emits one value, \<^verbatim>\<open>undefined\<close>; and when the store selects it, after any earlier values,
  the subscriber of \<^verbatim>\<open>ngOnInit\<close> has set \<^verbatim>\<open>definitionId\<close> to \<^verbatim>\<open>undefined\<close> and
  \<^verbatim>\<open>isLoading\<close> to false.
\<close>

theorem no_default_definition:
  assumes "ds \<noteq> []" and "\<forall>e\<in>set ds. \<not> isDefault (snd e)"
  shows
    "pop (filter (\<lambda>key. isDefault_of ds key) (Object_keys ds)) = None
     \<and> getDefaultSubmissionDefinition [Some ds] = [None]
     \<and> ((\<forall>e\<in>set es. e = None \<or> e = Some []) \<longrightarrow>
          getDefaultSubmissionDefinition (es @ [Some ds]) = [None])
     \<and> SubmitForm_ngOnInit (es @ [Some ds]) c = c\<lparr>definitionId := None, isLoading := False\<rparr>
     \<and> definitionId (SubmitForm_ngOnInit (es @ [Some ds]) c) = None
     \<and> isLoading (SubmitForm_ngOnInit (es @ [Some ds]) c) = False"
proof -
  have dk: "default_key ds = None"
    using assms(2) by (rule default_key_none)
  have "getDefaultSubmissionDefinition ([] @ [Some ds]) = [default_key ds]"
    by (rule first_definitions [OF assms(1)]) simp
  with dk first_definitions [OF assms(1), of es] ngOnInit_last_definitions [OF assms(1), of es c]
  show ?thesis
    by (simp add: default_key_def)
qed

theorem no_default_definition_witness:
  "getDefaultSubmissionDefinition
     [Some [(''A'', \<lparr>isDefault = False\<rparr>), (''B'', \<lparr>isDefault = False\<rparr>)]] = [None]
   \<and> SubmitForm_ngOnInit
       [None, Some [(''A'', \<lparr>isDefault = False\<rparr>), (''B'', \<lparr>isDefault = False\<rparr>)]]
       (new_SubmitForm\<lparr>definitionId := Some ''X''\<rparr>)
     = new_SubmitForm\<lparr>definitionId := None, isLoading := False\<rparr>"
proof -
  let ?ds = "[(''A'', \<lparr>isDefault = False\<rparr>), (''B'', \<lparr>isDefault = False\<rparr>)]"
  have 1: "?ds \<noteq> []" and 2: "\<forall>e\<in>set ?ds. \<not> isDefault (snd e)"
    by simp_all
  from no_default_definition [OF 1 2, of "[None]" "new_SubmitForm\<lparr>definitionId := Some ''X''\<rparr>"]
  show ?thesis
    by simp
qed

end
